theory Spec2Isabelle
  imports Complex_Main
begin

section \<open>JavaScript values\<close>

text \<open>
  The values that the session code of \<^verbatim>\<open>script.js\<close> stores in its answer variables:
  \<^verbatim>\<open>undefined\<close>, \<^verbatim>\<open>null\<close>, a number, or \<^verbatim>\<open>NaN\<close>. The digits, sums and
  millisecond values of the program are integers.
\<close>

datatype jsval = Undefined | Null | Num int | NaN

text \<open>\<^verbatim>\<open>xs[i]\<close>: reading outside the array yields \<^verbatim>\<open>undefined\<close>.\<close>

definition js_index :: "int list \<Rightarrow> int \<Rightarrow> jsval" where
  "js_index xs i = (if 0 \<le> i \<and> i < int (length xs) then Num (xs ! nat i) else Undefined)"

text \<open>\<^verbatim>\<open>Number(v)\<close> on these values.\<close>

fun js_Number :: "jsval \<Rightarrow> jsval" where
  "js_Number Undefined = NaN"
| "js_Number Null = Num 0"
| "js_Number (Num n) = Num n"
| "js_Number NaN = NaN"

text \<open>\<^verbatim>\<open>a + b\<close> on these values (numeric addition; \<^verbatim>\<open>undefined\<close> makes it \<^verbatim>\<open>NaN\<close>).\<close>

definition js_add :: "jsval \<Rightarrow> jsval \<Rightarrow> jsval" where
  "js_add a b = (case (js_Number a, js_Number b) of
                   (Num x, Num y) \<Rightarrow> Num (x + y)
                 | _ \<Rightarrow> NaN)"

text \<open>\<^verbatim>\<open>a === b\<close>: \<^verbatim>\<open>NaN\<close> is not equal to itself.\<close>

definition js_seq :: "jsval \<Rightarrow> jsval \<Rightarrow> bool" where
  "js_seq a b = (a = b \<and> a \<noteq> NaN)"

text \<open>\<^verbatim>\<open>isNaN(v)\<close>.\<close>

definition js_isNaN :: "jsval \<Rightarrow> bool" where
  "js_isNaN v = (js_Number v = NaN)"

text \<open>Truthiness of a value, as \<^verbatim>\<open>v || d\<close> and \<^verbatim>\<open>if (v)\<close> test it.\<close>

fun js_truthy :: "jsval \<Rightarrow> bool" where
  "js_truthy (Num n) = (n \<noteq> 0)"
| "js_truthy _ = False"

section \<open>The N-back correctness oracle\<close>

text \<open>
  \<^verbatim>\<open>
  function calculateNbackAnswer(currentNum, sequence, nback) {
    if (sequence.length < nback) {
      return null; // Not enough numbers in sequence yet
    }
    const previousNum = sequence[sequence.length - nback - 1];
    return currentNum + previousNum;
  }
  \<close>
\<close>

definition calculateNbackAnswer :: "int \<Rightarrow> int list \<Rightarrow> int \<Rightarrow> jsval" where
  "calculateNbackAnswer currentNum sequence nback =
     (if int (length sequence) < nback then Null
      else js_add (Num currentNum) (js_index sequence (int (length sequence) - nback - 1)))"

section \<open>Program state\<close>

text \<open>
  A trial object, as \<^verbatim>\<open>presentNextNumber\<close> creates it. \<^verbatim>\<open>responseTime\<close> is not a
  property of a fresh trial (\<open>None\<close> stands for \<^verbatim>\<open>undefined\<close>); \<^verbatim>\<open>correct\<close> is
  \<^verbatim>\<open>null\<close> (\<open>None\<close>) until the trial is scored.
\<close>

record trial =
  t_nbackValue :: int
  t_currentNumber :: int
  t_previousNumber :: jsval
  t_correctAnswer :: jsval
  t_userAnswer :: jsval
  t_correct :: "bool option"
  t_isi :: int
  t_trialId :: nat
  t_responseTime :: "int option"

text \<open>
  The text of the answer field, by what the code reads from it: whether
  \<^verbatim>\<open>answerInput.value.trim()\<close> is empty, and otherwise the value of \<^verbatim>\<open>Number\<close> on it
  (a number or \<^verbatim>\<open>NaN\<close>).
\<close>

datatype field_text = Blank | Text jsval

text \<open>
  The callbacks the session code hands to \<^verbatim>\<open>setTimeout\<close> and \<^verbatim>\<open>setInterval\<close>, and the
  continuation of \<^verbatim>\<open>presentNextNumber\<close> that waits for the promise of \<^verbatim>\<open>speakNumber\<close>.
  \<open>AnswerTimeout trialId trialPresentationTime\<close> is the deadline callback with the two
  constants it captures. \<open>RemoveIncorrectSelection\<close> is the callback that takes the
  \<^verbatim>\<open>incorrect-selection\<close> mark off a number-pad button after 300 ms,
  \<open>PlayErrorBeep\<close> the body that \<^verbatim>\<open>playErrorBeep\<close> defers with
  \<^verbatim>\<open>setTimeout(..., 0)\<close>, and \<open>RemoveBeepAudio\<close> the clean-up that the fallback
  player of the beep arms after 200 ms.
\<close>

datatype callback =
    PresentNextNumber
  | AnswerTimeout nat int
  | SpeakSettled
  | UpdateTimer
  | RemoveIncorrectSelection
  | PlayErrorBeep
  | RemoveBeepAudio

record modeSettings =
  ms_selectedISI :: int
  ms_sessionDuration :: int

record beepSettings_rec =
  enabled :: bool
  volume :: real

record sessionData =
  sd_date :: int
  sd_totalCorrect :: nat
  sd_totalAttempts :: nat
  sd_accuracy :: int
  sd_sessionDuration :: int
  sd_lowestISI :: int
  sd_mode :: string
  sd_nbackValue :: int
  sd_trials :: nat
  sd_averageResponseTime :: int
  sd_consecutiveCorrectMax :: nat

text \<open>
  What \<^verbatim>\<open>localStorage\<close> holds under the keys of the program. The program writes
  \<^verbatim>\<open>JSON.stringify\<close> of a settings object and reads it back with \<^verbatim>\<open>JSON.parse\<close>; the
  stored text is represented by the object it encodes.
\<close>

datatype stored =
    StoredMode modeSettings
  | StoredNback int
  | StoredBeep beepSettings_rec
  | StoredRate real
  | StoredSessions "sessionData list"

text \<open>
  The global variables of \<^verbatim>\<open>script.js\<close>, the parts of the page the session code reads
  and writes (the answer field, the selected number-pad button, the N-back input), the
  callbacks that are pending, and \<^verbatim>\<open>localStorage\<close>. \<open>beepSoundLoaded\<close> stands for
  \<^verbatim>\<open>beepSound && beepSound.state() === 'loaded'\<close>.
\<close>

record state =
  howlReady :: bool
  currentNumber :: jsval
  lastPresentedNumber :: jsval
  correctAnswer :: jsval
  currentIntervalId :: "nat option"
  audioPlayInProgress :: bool
  processingAnswer :: bool
  nextPresentationTime :: int
  forcePresentNextNumber :: bool
  useNumberPad :: bool
  answerProcessed :: bool
  nbackValue :: int
  numberSequence :: "int list"
  currentTrialId :: nat
  nextNumberScheduled :: bool
  trainingTimerId :: "nat option"
  currentISIValue :: int
  consecutiveCorrect :: nat
  consecutiveIncorrect :: nat
  sessionHistory :: "trial list"
  totalCorrect :: nat
  totalAttempts :: nat
  lowestISI :: int
  remainingTime :: int
  sessionActive :: bool
  isStandardMode :: bool
  isCustomMode :: bool
  isManualMode :: bool
  standardModeSettings :: modeSettings
  manualModeSettings :: modeSettings
  customModeSettings :: modeSettings
  selectedISI :: int
  sessionDuration :: int
  nbackSettings :: int
  beepSettings :: beepSettings_rec
  audioSpeedSettings :: real
  allSessions :: "sessionData list"
  answerInput :: field_text
  selectedButton :: "jsval option"
  nbackInput :: "jsval option"
  errorBeeps :: nat
  beepSoundLoaded :: bool
  pending :: "(nat \<times> callback) list"
  nextTimerId :: nat
  storage :: "string \<rightharpoonup> stored"
  storageAvailable :: bool

subsection \<open>Timers\<close>

text \<open>
  \<^verbatim>\<open>setTimeout\<close> and \<^verbatim>\<open>setInterval\<close> register a callback and return its handle;
  \<^verbatim>\<open>clearTimeout\<close> and \<^verbatim>\<open>clearInterval\<close> remove the callback with that handle.
\<close>

definition setTimeout :: "callback \<Rightarrow> state \<Rightarrow> nat \<times> state" where
  "setTimeout cb s =
     (nextTimerId s, s\<lparr>pending := pending s @ [(nextTimerId s, cb)], nextTimerId := nextTimerId s + 1\<rparr>)"

definition clearTimeout :: "nat \<Rightarrow> state \<Rightarrow> state" where
  "clearTimeout i s = s\<lparr>pending := filter (\<lambda>p. fst p \<noteq> i) (pending s)\<rparr>"

subsection \<open>Audio\<close>

text \<open>
  \<^verbatim>\<open>stopAllAudio\<close> stops the sounds and resets \<^verbatim>\<open>audioPlayInProgress\<close>. A stopped sound
  does not report its end, so a promise of \<^verbatim>\<open>playNumberWithHowler\<close> that is still open
  stays pending until its safety timeout settles it.
\<close>

definition stopAllAudio :: "state \<Rightarrow> state" where
  "stopAllAudio s = s\<lparr>audioPlayInProgress := False\<rparr>"

text \<open>
  \<^verbatim>\<open>playErrorBeep\<close> returns at once unless the beep is enabled with a positive volume;
  otherwise it defers the playing with \<^verbatim>\<open>setTimeout(..., 0)\<close>. The deferred body plays
  the tone (the audio device does that; \<open>errorBeeps\<close> counts the tones) with the loaded
  sound, or with a fallback player that it removes 200 ms later.
\<close>

definition playErrorBeep :: "state \<Rightarrow> state" where
  "playErrorBeep s =
     (if \<not> enabled (beepSettings s) \<or> volume (beepSettings s) \<le> 0 then s
      else snd (setTimeout PlayErrorBeep s))"

definition playErrorBeep_deferred :: "state \<Rightarrow> state" where
  "playErrorBeep_deferred s =
     (if beepSoundLoaded s then s\<lparr>errorBeeps := errorBeeps s + 1\<rparr>
      else snd (setTimeout RemoveBeepAudio (s\<lparr>errorBeeps := errorBeeps s + 1\<rparr>)))"

subsection \<open>Answer processing\<close>

definition canProcessButtonClick :: "state \<Rightarrow> bool" where
  "canProcessButtonClick s =
     (if processingAnswer s then False
      else if correctAnswer s = Null then False
      else if audioPlayInProgress s then False
      else if answerProcessed s then False
      else True)"

definition canProcessAnswerImmediately :: "jsval \<Rightarrow> state \<Rightarrow> bool" where
  "canProcessAnswerImmediately userAnswer s =
     (if \<not> canProcessButtonClick s then False else js_seq userAnswer (correctAnswer s))"

definition shouldProcessAnswerImmediately :: "jsval \<Rightarrow> state \<Rightarrow> bool" where
  "shouldProcessAnswerImmediately userAnswer s = canProcessAnswerImmediately userAnswer s"

text \<open>
  \<^verbatim>\<open>processAnswer(userAnswer)\<close> is modelled block by block. The first block is the
  comparison that sets \<^verbatim>\<open>isCorrect\<close>.
\<close>

definition isCorrectFor :: "jsval \<Rightarrow> trial \<Rightarrow> bool" where
  "isCorrectFor userAnswer currentTrial =
     (if userAnswer \<noteq> Null \<and> userAnswer \<noteq> Undefined
      then \<not> js_isNaN (js_Number userAnswer) \<and>
           \<not> js_isNaN (js_Number (t_correctAnswer currentTrial)) \<and>
           js_Number userAnswer = js_Number (t_correctAnswer currentTrial)
      else False)"

text \<open>
  The writes to the current trial, the last object of \<^verbatim>\<open>sessionHistory\<close>, which is
  updated in place.
\<close>

definition recordAnswer :: "jsval \<Rightarrow> int \<Rightarrow> bool \<Rightarrow> state \<Rightarrow> state" where
  "recordAnswer userAnswer responseTime isCorrect s =
     s\<lparr>sessionHistory :=
         (sessionHistory s)[length (sessionHistory s) - 1 :=
            (last (sessionHistory s))\<lparr>t_responseTime := Some responseTime,
               t_userAnswer := userAnswer, t_correct := Some isCorrect\<rparr>]\<rparr>"

text \<open>"Update counters (centralized logic)".\<close>

definition updateCounters :: "bool \<Rightarrow> state \<Rightarrow> state" where
  "updateCounters isCorrect s =
     (let s = s\<lparr>totalAttempts := totalAttempts s + 1\<rparr>
      in if isCorrect
         then s\<lparr>totalCorrect := totalCorrect s + 1,
                consecutiveCorrect := consecutiveCorrect s + 1,
                consecutiveIncorrect := 0\<rparr>
         else s\<lparr>consecutiveCorrect := 0,
                consecutiveIncorrect := consecutiveIncorrect s + 1\<rparr>)"

text \<open>"Update ISI based on performance (only if NOT in manual mode)".\<close>

definition updateISI :: "state \<Rightarrow> state" where
  "updateISI s =
     (if \<not> isManualMode s then
        (if consecutiveCorrect s \<ge> 4 then
           let s = s\<lparr>currentISIValue := max 500 (currentISIValue s - 100)\<rparr>;
               s = s\<lparr>lowestISI := min (lowestISI s) (currentISIValue s)\<rparr>
           in s\<lparr>consecutiveCorrect := 0\<rparr>
         else if consecutiveIncorrect s \<ge> 4 then
           let s = s\<lparr>currentISIValue := min 5000 (currentISIValue s + 100)\<rparr>
           in s\<lparr>consecutiveIncorrect := 0\<rparr>
         else s)
      else s\<lparr>currentISIValue := selectedISI s\<rparr>)"

text \<open>"Clear input for next number".\<close>

definition clearInput :: "bool \<Rightarrow> state \<Rightarrow> state" where
  "clearInput isCorrect s =
     (if useNumberPad s
      then (if isCorrect then s\<lparr>selectedButton := None\<rparr> else s)
      else (if isCorrect then s\<lparr>answerInput := Blank\<rparr> else s))"

text \<open>
  The function itself, with the value of \<^verbatim>\<open>Date.now()\<close> as \<open>now\<close>. The result is the
  returned flag and the state.
\<close>

definition processAnswer :: "jsval \<Rightarrow> int \<Rightarrow> state \<Rightarrow> bool \<times> state" where
  "processAnswer userAnswer now s =
     (if processingAnswer s \<or> correctAnswer s = Null then (False, s)
      else if sessionHistory s = [] then (False, s\<lparr>processingAnswer := False\<rparr>)
      else if t_userAnswer (last (sessionHistory s)) \<noteq> Null
        then (False, s\<lparr>processingAnswer := False\<rparr>)
      else if \<not> js_seq (t_correctAnswer (last (sessionHistory s))) (correctAnswer s)
        then (False, s\<lparr>processingAnswer := False\<rparr>)
      else
        let responseTime = now - (nextPresentationTime s - currentISIValue s);
            isCorrect = isCorrectFor userAnswer (last (sessionHistory s));
            s = recordAnswer userAnswer responseTime isCorrect (s\<lparr>processingAnswer := True\<rparr>);
            s = updateCounters isCorrect s;
            s = updateISI s;
            s = clearInput isCorrect s;
            s = (if \<not> isCorrect then playErrorBeep s else s)
        in (True, s\<lparr>processingAnswer := False\<rparr>))"

subsection \<open>Presenting a number\<close>

text \<open>
  The part of \<^verbatim>\<open>presentNextNumber\<close> after \<^verbatim>\<open>await speakNumber(currentNumber)\<close>: it
  schedules the next presentation and, once the sequence is deep enough, the deadline
  of the current trial. \<open>now\<close> is \<^verbatim>\<open>Date.now()\<close> there. (\<^verbatim>\<open>speakNumber\<close> always
  resolves, so the \<^verbatim>\<open>catch\<close> branch of the function is never entered.)
\<close>

definition scheduleNext :: "int \<Rightarrow> state \<Rightarrow> state" where
  "scheduleNext now s =
     (let s = s\<lparr>nextPresentationTime := now + currentISIValue s\<rparr>
      in (snd (setTimeout PresentNextNumber s))\<lparr>currentIntervalId := Some (nextTimerId s)\<rparr>)"

definition afterSpeak :: "int \<Rightarrow> state \<Rightarrow> state" where
  "afterSpeak now s =
     (if int (length (numberSequence s)) \<ge> nbackValue s + 1 then
        let s = scheduleNext now s;
            trialId = currentTrialId s;
            trialPresentationTime = now
        in snd (setTimeout (AnswerTimeout trialId trialPresentationTime) s)
      else scheduleNext now s)"

text \<open>
  \<^verbatim>\<open>speakNumber\<close> followed by the wait: the promise is resolved at once when the session
  is not active, audio is already playing or the sounds are not loaded, and the
  continuation runs (at time \<open>after\<close>); otherwise playback starts and the continuation
  stays pending until the sound ends or its safety timeout fires. (Every digit 1 to 9
  has its sound once \<^verbatim>\<open>howlReady\<close> holds.)
\<close>

definition speakNumber_then :: "int \<Rightarrow> state \<Rightarrow> state" where
  "speakNumber_then after s =
     (if \<not> sessionActive s then afterSpeak after s
      else if audioPlayInProgress s then afterSpeak after s
      else if \<not> howlReady s then afterSpeak after s
      else snd (setTimeout SpeakSettled (s\<lparr>audioPlayInProgress := True\<rparr>)))"

text \<open>\<^verbatim>\<open>if (currentIntervalId) { clearTimeout(currentIntervalId); currentIntervalId = null; }\<close>\<close>

definition clearCurrentInterval :: "state \<Rightarrow> state" where
  "clearCurrentInterval s =
     (case currentIntervalId s of
        Some i \<Rightarrow> (clearTimeout i s)\<lparr>currentIntervalId := None\<rparr>
      | None \<Rightarrow> s)"

text \<open>
  The block of \<^verbatim>\<open>presentNextNumber\<close> that sets \<^verbatim>\<open>correctAnswer\<close> and creates the trial,
  entered when \<^verbatim>\<open>numberSequence.length >= nbackValue + 1\<close>.
\<close>

definition openTrial :: "int \<Rightarrow> state \<Rightarrow> state" where
  "openTrial digit s =
     (let s = s\<lparr>correctAnswer := calculateNbackAnswer digit (numberSequence s) (nbackValue s)\<rparr>;
          s = s\<lparr>currentTrialId := currentTrialId s + 1\<rparr>;
          currentTrial =
            \<lparr>t_nbackValue = nbackValue s,
             t_currentNumber = digit,
             t_previousNumber =
               js_index (numberSequence s) (int (length (numberSequence s)) - nbackValue s - 1),
             t_correctAnswer = correctAnswer s,
             t_userAnswer = Null,
             t_correct = None,
             t_isi = currentISIValue s,
             t_trialId = currentTrialId s,
             t_responseTime = None\<rparr>
      in s\<lparr>sessionHistory := sessionHistory s @ [currentTrial]\<rparr>)"

text \<open>
  The presentation proper, from "Generate a new number" to the call of
  \<^verbatim>\<open>speakNumber\<close>.
\<close>

definition presentNumber :: "int \<Rightarrow> state \<Rightarrow> state" where
  "presentNumber digit s =
     (let s = s\<lparr>forcePresentNextNumber := False, currentNumber := Num digit\<rparr>;
          s = s\<lparr>numberSequence := numberSequence s @ [digit]\<rparr>;
          s = (if int (length (numberSequence s)) \<ge> nbackValue s + 1 then openTrial digit s else s);
          s = s\<lparr>lastPresentedNumber := Num digit, nextNumberScheduled := False\<rparr>;
          s = (if correctAnswer s \<noteq> Null
               then s\<lparr>answerProcessed := False, processingAnswer := False\<rparr>
               else s)
      in if useNumberPad s then s else s\<lparr>answerInput := Blank\<rparr>)"

text \<open>
  \<^verbatim>\<open>presentNextNumber\<close> up to the wait and, when the promise is already resolved, beyond
  it. \<open>digit\<close> is the result of \<^verbatim>\<open>generateNumber()\<close>, \<open>currentTime\<close> the value of
  \<^verbatim>\<open>Date.now()\<close> at its start.
\<close>

definition presentNextNumber :: "int \<Rightarrow> int \<Rightarrow> int \<Rightarrow> state \<Rightarrow> state" where
  "presentNextNumber digit currentTime after s =
     (if \<not> sessionActive s then s
      else if nextNumberScheduled s then s
      else
        let s = clearCurrentInterval (s\<lparr>nextNumberScheduled := True\<rparr>)
        in
        if numberSequence s \<noteq> [] \<and> \<not> forcePresentNextNumber s \<and>
           nextPresentationTime s - currentTime > 0
        then (snd (setTimeout PresentNextNumber s))\<lparr>currentIntervalId := Some (nextTimerId s)\<rparr>
        else speakNumber_then after (presentNumber digit s))"

subsection \<open>The deadline of a trial\<close>

text \<open>\<^verbatim>\<open>xs.findIndex(p)\<close>: the index of the first match, or \<open>-1\<close>.\<close>

fun findIndex :: "('a \<Rightarrow> bool) \<Rightarrow> 'a list \<Rightarrow> int" where
  "findIndex P [] = - 1"
| "findIndex P (x # xs) =
     (if P x then 0 else (let i = findIndex P xs in if i < 0 then - 1 else i + 1))"

text \<open>
  The deadline callback is the function that \<^verbatim>\<open>presentNextNumber\<close> hands to
  \<^verbatim>\<open>setTimeout(..., currentISIValue)\<close> next to the timer of the next presentation. Its
  first branch handles a target trial that is not the last one: the trial object at
  \<open>targetTrialIndex\<close> is written in place, with no answer.
\<close>

definition lateUpdateISI :: "state \<Rightarrow> state" where
  "lateUpdateISI s =
     (if \<not> isManualMode s then
        (if consecutiveIncorrect s \<ge> 4 then
           let s = s\<lparr>currentISIValue := min 5000 (currentISIValue s + 100)\<rparr>
           in s\<lparr>consecutiveIncorrect := 0\<rparr>
         else s)
      else s)"

definition lateResolve :: "trial \<Rightarrow> nat \<Rightarrow> int \<Rightarrow> state \<Rightarrow> state" where
  "lateResolve targetTrial targetTrialIndex responseTime s =
     (let userAnswer = Null;
          s = s\<lparr>sessionHistory :=
                  (sessionHistory s)[targetTrialIndex :=
                     targetTrial\<lparr>t_responseTime := Some responseTime,
                        t_userAnswer := userAnswer, t_correct := Some False\<rparr>]\<rparr>;
          s = s\<lparr>totalAttempts := totalAttempts s + 1\<rparr>;
          s = s\<lparr>consecutiveCorrect := 0\<rparr>;
          s = s\<lparr>consecutiveIncorrect := consecutiveIncorrect s + 1\<rparr>;
          s = lateUpdateISI s
      in playErrorBeep s)"

text \<open>
  Its second branch, for the last trial: the answer is read from the number pad or the
  answer field and handed to \<^verbatim>\<open>processAnswer\<close>.
\<close>

definition finalAnswer :: "state \<Rightarrow> jsval" where
  "finalAnswer s =
     (if useNumberPad s
      then (case selectedButton s of Some v \<Rightarrow> v | None \<Rightarrow> Null)
      else (case answerInput s of Text v \<Rightarrow> v | Blank \<Rightarrow> Null))"

definition clearInputAfterTimeout :: "state \<Rightarrow> state" where
  "clearInputAfterTimeout s =
     (if useNumberPad s then s\<lparr>selectedButton := None\<rparr> else s\<lparr>answerInput := Blank\<rparr>)"

definition timeoutProcess :: "int \<Rightarrow> state \<Rightarrow> state" where
  "timeoutProcess now s =
     (let userAnswer =
            (if finalAnswer s \<noteq> Null \<and> \<not> js_isNaN (finalAnswer s)
             then js_Number (finalAnswer s) else Null);
          r = processAnswer userAnswer now (s\<lparr>answerProcessed := True\<rparr>);
          s = (if \<not> fst r then (snd r)\<lparr>answerProcessed := False\<rparr> else snd r)
      in clearInputAfterTimeout s)"

text \<open>
  The callback. \<open>trialId\<close> and \<open>trialPresentationTime\<close> are the constants it captured,
  \<open>now\<close> is \<^verbatim>\<open>Date.now()\<close> when it runs.
\<close>

definition answerTimeout :: "nat \<Rightarrow> int \<Rightarrow> int \<Rightarrow> state \<Rightarrow> state" where
  "answerTimeout trialId trialPresentationTime now s =
     (if \<not> answerProcessed s \<and> \<not> processingAnswer s then
        (case find (\<lambda>t. t_trialId t = trialId) (sessionHistory s) of
           None \<Rightarrow> s
         | Some targetTrial \<Rightarrow>
             if t_userAnswer targetTrial \<noteq> Null then s
             else
               let lastTrialIndex = int (length (sessionHistory s)) - 1;
                   targetTrialIndex = findIndex (\<lambda>t. t_trialId t = trialId) (sessionHistory s)
               in
               if targetTrialIndex \<noteq> lastTrialIndex
               then lateResolve targetTrial (nat targetTrialIndex) (now - trialPresentationTime) s
               else timeoutProcess now s)
      else s)"

subsection \<open>Input handlers\<close>

text \<open>
  The call that every immediate path makes:
  \<^verbatim>\<open>answerProcessed = true; success = processAnswer(v); if (!success) answerProcessed = false;\<close>
\<close>

definition processImmediately :: "jsval \<Rightarrow> int \<Rightarrow> state \<Rightarrow> bool \<times> state" where
  "processImmediately v now s =
     (let r = processAnswer v now (s\<lparr>answerProcessed := True\<rparr>)
      in if \<not> fst r then (False, (snd r)\<lparr>answerProcessed := False\<rparr>) else (True, snd r))"

text \<open>
  \<^verbatim>\<open>handleButtonInteraction\<close> of a number-pad button; \<open>v\<close> is \<^verbatim>\<open>parseInt\<close> of the
  button's \<^verbatim>\<open>data-value\<close>. A press that is not processed at once marks the button as
  an incorrect selection and arms a timer that removes the mark; the mark itself is
  rendering only.
\<close>

definition handleButtonInteraction :: "jsval \<Rightarrow> int \<Rightarrow> state \<Rightarrow> state" where
  "handleButtonInteraction v now s =
     (if \<not> canProcessButtonClick s then s\<lparr>selectedButton := None\<rparr>
      else
        let s = s\<lparr>selectedButton := Some v\<rparr> in
        if shouldProcessAnswerImmediately v s then
          let r = processImmediately v now s
          in if \<not> fst r then (snd r)\<lparr>selectedButton := None\<rparr> else snd r
        else snd (setTimeout RemoveIncorrectSelection s))"

text \<open>The \<^verbatim>\<open>input\<close> listener of the answer field; the field holds the new text.\<close>

definition answerInput_input :: "int \<Rightarrow> state \<Rightarrow> state" where
  "answerInput_input now s =
     (if \<not> canProcessButtonClick s then s
      else
        (case answerInput s of
           Blank \<Rightarrow> s
         | Text userAnswer \<Rightarrow>
             if \<not> js_isNaN userAnswer then
               (if js_seq userAnswer (correctAnswer s)
                then snd (processImmediately userAnswer now s)
                else s)
             else s))"

text \<open>The \<^verbatim>\<open>keyup\<close> listener of the answer field, for the Enter key.\<close>

definition answerInput_keyup_Enter :: "int \<Rightarrow> state \<Rightarrow> state" where
  "answerInput_keyup_Enter now s =
     (if answerInput s \<noteq> Blank then
        (if \<not> answerProcessed s \<and> canProcessButtonClick s then
           (case answerInput s of
              Blank \<Rightarrow> s
            | Text userAnswer \<Rightarrow>
                if \<not> js_isNaN userAnswer then
                  (if js_seq userAnswer (correctAnswer s)
                   then snd (processImmediately userAnswer now s)
                   else s)
                else s)
         else s)
      else s)"

subsection \<open>Persistence of the session collection\<close>

text \<open>
  \<^verbatim>\<open>localStorage.setItem\<close> and \<^verbatim>\<open>getItem\<close>; \<open>None\<close> is the exception of an
  unavailable store, which every caller with a \<^verbatim>\<open>try\<close> catches.
\<close>

definition setItem :: "string \<Rightarrow> stored \<Rightarrow> state \<Rightarrow> state option" where
  "setItem k v s = (if storageAvailable s then Some (s\<lparr>storage := (storage s)(k \<mapsto> v)\<rparr>) else None)"

definition getItem :: "string \<Rightarrow> state \<Rightarrow> stored option option" where
  "getItem k s = (if storageAvailable s then Some (storage s k) else None)"

definition saveSessions :: "state \<Rightarrow> state" where
  "saveSessions s =
     (case setItem ''pasatSessions'' (StoredSessions (allSessions s)) s of
        Some s' \<Rightarrow> s'
      | None \<Rightarrow> s)"

text \<open>
  The summary holds two numbers that the code computes in double precision:
  \<^verbatim>\<open>Math.round((totalCorrect / totalAttempts) * 100)\<close> and \<^verbatim>\<open>Math.round(sum / n)\<close>. A
  double is represented by a significand \<open>m\<close> and a binary exponent \<open>k\<close>, standing for
  \<open>m * 2 ^ k\<close>; a fraction by its numerator and its positive denominator. Each operation
  gives the double nearest to the exact result, ties to the even significand (53 bits;
  the magnitudes of a session are far from overflow and from the subnormal range).
\<close>

function bitlen :: "int \<Rightarrow> int" where
  "bitlen n = (if n \<le> 0 then 0 else 1 + bitlen (n div 2))"
  by pat_completeness auto
termination
  by (relation "measure nat") auto

text \<open>The fraction \<open>x\<close> times \<open>2 ^ k\<close>.\<close>

definition shift :: "int \<Rightarrow> int \<times> int \<Rightarrow> int \<times> int" where
  "shift k x = (if 0 \<le> k then (fst x * 2 ^ nat k, snd x) else (fst x, snd x * 2 ^ nat (- k)))"

text \<open>The \<open>e\<close> with \<open>2 ^ e \<le> p / q < 2 ^ (e + 1)\<close>, for positive \<open>p\<close> and \<open>q\<close>.\<close>

definition binary_exponent :: "int \<Rightarrow> int \<Rightarrow> int" where
  "binary_exponent p q =
     (let e0 = bitlen p - bitlen q;
          x = shift (- e0) (p, q)
      in if snd x \<le> fst x then e0 else e0 - 1)"

definition nearest_double :: "int \<Rightarrow> int \<Rightarrow> int \<times> int" where
  "nearest_double p q =
     (let e = binary_exponent p q;
          x = shift (52 - e) (p, q);
          f = fst x div snd x;
          r = fst x mod snd x;
          m = (if 2 * r < snd x then f else if snd x < 2 * r then f + 1
               else if even f then f else f + 1)
      in (m, e - 52))"

definition to_double :: "int \<times> int \<Rightarrow> int \<times> int" where
  "to_double x =
     (if fst x = 0 then (0, 0)
      else if fst x < 0
        then (- fst (nearest_double (- fst x) (snd x)), snd (nearest_double (- fst x) (snd x)))
      else nearest_double (fst x) (snd x))"

text \<open>\<^verbatim>\<open>a / b\<close> for integers \<open>a\<close> and \<open>b > 0\<close>, and \<^verbatim>\<open>d * n\<close> for a double and an integer.\<close>

definition js_div :: "int \<Rightarrow> int \<Rightarrow> int \<times> int" where
  "js_div a b = to_double (a, b)"

definition js_times :: "int \<times> int \<Rightarrow> int \<Rightarrow> int \<times> int" where
  "js_times d n = (let x = shift (snd d) (fst d, 1) in to_double (fst x * n, snd x))"

text \<open>\<^verbatim>\<open>Math.round(d)\<close>: the nearest integer, a tie going up.\<close>

definition Math_round :: "int \<times> int \<Rightarrow> int" where
  "Math_round d = (let x = shift (snd d) (fst d, 1) in (2 * fst x + snd x) div (2 * snd x))"

definition calculateAverageResponseTime :: "state \<Rightarrow> int" where
  "calculateAverageResponseTime s =
     (let responseTimes =
            map (\<lambda>t. the (t_responseTime t))
              (filter (\<lambda>t. t_responseTime t \<noteq> None) (sessionHistory s))
      in if length responseTimes = 0 then 0
         else Math_round (js_div (sum_list responseTimes) (int (length responseTimes))))"

text \<open>The longest run of correct trials, counted from every start index.\<close>

definition consecutiveCorrectMax :: "trial list \<Rightarrow> nat" where
  "consecutiveCorrectMax h =
     fold max
       (map (\<lambda>i. length (takeWhile (\<lambda>t. t_correct t = Some True) (drop i h))) [0..<length h]) 0"

text \<open>\<^verbatim>\<open>addSessionToHistory\<close>; \<open>now\<close> stands for the date of the summary.\<close>

definition addSessionToHistory :: "int \<Rightarrow> state \<Rightarrow> state" where
  "addSessionToHistory now s =
     (if length (sessionHistory s) = 0 then s
      else if totalAttempts s < 50 then s
      else
        let sessionData =
              \<lparr>sd_date = now,
               sd_totalCorrect = totalCorrect s,
               sd_totalAttempts = totalAttempts s,
               sd_accuracy =
                 (if totalAttempts s > 0
                  then Math_round
                         (js_times (js_div (int (totalCorrect s)) (int (totalAttempts s))) 100)
                  else 0),
               sd_sessionDuration = sessionDuration s,
               sd_lowestISI = lowestISI s,
               sd_mode =
                 (if isStandardMode s then ''Standard''
                  else if isManualMode s then ''Manual'' else ''Custom''),
               sd_nbackValue = nbackValue s,
               sd_trials = length (sessionHistory s),
               sd_averageResponseTime = calculateAverageResponseTime s,
               sd_consecutiveCorrectMax = consecutiveCorrectMax (sessionHistory s)\<rparr>;
            s = s\<lparr>allSessions := allSessions s @ [sessionData]\<rparr>
        in saveSessions s)"

subsection \<open>Ending and starting a session\<close>

text \<open>\<^verbatim>\<open>clearInterval(trainingTimerId)\<close>; it does nothing for a handle that was never set.\<close>

definition clearTrainingTimer :: "state \<Rightarrow> state" where
  "clearTrainingTimer s = (case trainingTimerId s of Some i \<Rightarrow> clearTimeout i s | None \<Rightarrow> s)"

definition endSession :: "int \<Rightarrow> state \<Rightarrow> state" where
  "endSession now s =
     (let s = stopAllAudio s;
          s = clearTrainingTimer s;
          s = clearCurrentInterval s;
          s = s\<lparr>sessionActive := False, processingAnswer := False, answerProcessed := False,
                nextNumberScheduled := False, audioPlayInProgress := False,
                forcePresentNextNumber := False\<rparr>
      in addSessionToHistory now s)"

definition updateTimer :: "int \<Rightarrow> state \<Rightarrow> state" where
  "updateTimer now s =
     (let s = s\<lparr>remainingTime := remainingTime s - 1\<rparr>
      in if remainingTime s \<le> 0 then endSession now s else s)"

text \<open>
  \<^verbatim>\<open>startSession\<close>, block by block. \<open>nbackInput\<close> is the N-back input element, if the
  page has one, with \<^verbatim>\<open>parseInt\<close> of its text.
\<close>

definition readNbackInput :: "state \<Rightarrow> state" where
  "readNbackInput s =
     (case nbackInput s of
        None \<Rightarrow> s
      | Some v \<Rightarrow>
          let n = max 1 (min 10 (case v of Num k \<Rightarrow> (if k = 0 then 1 else k) | _ \<Rightarrow> 1))
          in s\<lparr>nbackValue := n, nbackInput := Some (Num n)\<rparr>)"

definition resetSessionVariables :: "state \<Rightarrow> state" where
  "resetSessionVariables s =
     (let s = s\<lparr>selectedISI := max 500 (selectedISI s)\<rparr>;
          s = s\<lparr>currentISIValue := selectedISI s\<rparr>;
          s = s\<lparr>consecutiveCorrect := 0, consecutiveIncorrect := 0,
                remainingTime := sessionDuration s * 60, sessionHistory := [],
                totalCorrect := 0, totalAttempts := 0\<rparr>;
          s = readNbackInput s;
          s = s\<lparr>numberSequence := []\<rparr>;
          s = (if isManualMode s then s\<lparr>lowestISI := currentISIValue s\<rparr>
               else s\<lparr>lowestISI := currentISIValue s\<rparr>)
      in s\<lparr>currentNumber := Null, correctAnswer := Null, lastPresentedNumber := Null,
           processingAnswer := False, nextPresentationTime := 0,
           forcePresentNextNumber := False, answerProcessed := False,
           currentTrialId := 0, nextNumberScheduled := False,
           audioPlayInProgress := False\<rparr>)"

definition startTimers :: "state \<Rightarrow> state" where
  "startTimers s =
     (let s = (snd (setTimeout UpdateTimer s))\<lparr>trainingTimerId := Some (nextTimerId s)\<rparr>;
          s = s\<lparr>sessionActive := True\<rparr>
      in snd (setTimeout PresentNextNumber s))"

definition startSession :: "state \<Rightarrow> state" where
  "startSession s =
     (let s = stopAllAudio s;
          s = (if useNumberPad s then s\<lparr>selectedButton := None\<rparr> else s\<lparr>answerInput := Blank\<rparr>);
          s = resetSessionVariables s;
          s = clearCurrentInterval s;
          s = s\<lparr>selectedButton := None\<rparr>;
          s = s\<lparr>answerInput := Blank\<rparr>
      in startTimers s)"

subsection \<open>Settings and their persistence\<close>

text \<open>
  A load reads the stored object field by field with a default, \<^verbatim>\<open>settings.f || d\<close>: the
  default replaces a field that is missing and also one that is falsy (a number 0,
  \<^verbatim>\<open>false\<close>). An object of another shape has none of the fields read. A load or save
  inside \<^verbatim>\<open>try\<close> leaves the state as it is when the store throws.
\<close>

definition js_or_int :: "int \<Rightarrow> int \<Rightarrow> int" where
  "js_or_int v d = (if v = 0 then d else v)"

definition js_or_real :: "real \<Rightarrow> real \<Rightarrow> real" where
  "js_or_real v d = (if v = 0 then d else v)"

definition updateCustomModeUI :: "state \<Rightarrow> state" where
  "updateCustomModeUI s =
     s\<lparr>selectedISI := ms_selectedISI (customModeSettings s),
       sessionDuration := ms_sessionDuration (customModeSettings s)\<rparr>"

definition updateStandardModeUI :: "state \<Rightarrow> state" where
  "updateStandardModeUI s =
     (let s = s\<lparr>selectedISI := ms_selectedISI (standardModeSettings s),
                sessionDuration := ms_sessionDuration (standardModeSettings s)\<rparr>;
          s = (if selectedISI s \<noteq> 3000
               then s\<lparr>selectedISI := 3000,
                      standardModeSettings := (standardModeSettings s)\<lparr>ms_selectedISI := 3000\<rparr>\<rparr>
               else s);
          s = (if sessionDuration s \<noteq> 20
               then s\<lparr>sessionDuration := 20,
                      standardModeSettings := (standardModeSettings s)\<lparr>ms_sessionDuration := 20\<rparr>\<rparr>
               else s)
      in s)"

definition updateManualModeUI :: "state \<Rightarrow> state" where
  "updateManualModeUI s =
     s\<lparr>selectedISI := ms_selectedISI (manualModeSettings s),
       sessionDuration := ms_sessionDuration (manualModeSettings s)\<rparr>"

definition loadCustomModeSettings :: "state \<Rightarrow> state" where
  "loadCustomModeSettings s =
     (case getItem ''pasatCustomModeSettings'' s of
        None \<Rightarrow> s
      | Some None \<Rightarrow> s
      | Some (Some saved) \<Rightarrow>
          let settings = (case saved of StoredMode m \<Rightarrow> m
                          | _ \<Rightarrow> \<lparr>ms_selectedISI = 0, ms_sessionDuration = 0\<rparr>);
              s = s\<lparr>customModeSettings :=
                      \<lparr>ms_selectedISI = js_or_int (ms_selectedISI settings) 3000,
                       ms_sessionDuration = js_or_int (ms_sessionDuration settings) 20\<rparr>\<rparr>
          in updateCustomModeUI s)"

definition loadManualModeSettings :: "state \<Rightarrow> state" where
  "loadManualModeSettings s =
     (case getItem ''pasatManualModeSettings'' s of
        None \<Rightarrow> s
      | Some None \<Rightarrow> s
      | Some (Some saved) \<Rightarrow>
          let settings = (case saved of StoredMode m \<Rightarrow> m
                          | _ \<Rightarrow> \<lparr>ms_selectedISI = 0, ms_sessionDuration = 0\<rparr>)
          in s\<lparr>manualModeSettings :=
                 \<lparr>ms_selectedISI = js_or_int (ms_selectedISI settings) 3000,
                  ms_sessionDuration = js_or_int (ms_sessionDuration settings) 20\<rparr>\<rparr>)"

definition loadNbackSettings :: "state \<Rightarrow> state" where
  "loadNbackSettings s =
     (case getItem ''pasatNbackSettings'' s of
        None \<Rightarrow> s
      | Some None \<Rightarrow> s
      | Some (Some saved) \<Rightarrow>
          let v = (case saved of StoredNback n \<Rightarrow> n | _ \<Rightarrow> 0)
          in s\<lparr>nbackSettings := max 1 (min 10 (js_or_int v 1))\<rparr>)"

definition loadBeepSettings :: "state \<Rightarrow> state" where
  "loadBeepSettings s =
     (case getItem ''pasatBeepSettings'' s of
        None \<Rightarrow> s
      | Some None \<Rightarrow> s
      | Some (Some saved) \<Rightarrow>
          let settings = (case saved of StoredBeep b \<Rightarrow> b
                          | _ \<Rightarrow> \<lparr>enabled = False, volume = 0\<rparr>)
          in s\<lparr>beepSettings :=
                 \<lparr>enabled = (enabled settings \<or> False),
                  volume = max 0 (min 1 (js_or_real (volume settings) (1 / 2)))\<rparr>\<rparr>)"

definition loadAudioSpeedSettings :: "state \<Rightarrow> state" where
  "loadAudioSpeedSettings s =
     (case getItem ''pasatAudioSpeedSettings'' s of
        None \<Rightarrow> s
      | Some None \<Rightarrow> s
      | Some (Some saved) \<Rightarrow>
          let r = (case saved of StoredRate r \<Rightarrow> r | _ \<Rightarrow> 0)
          in s\<lparr>audioSpeedSettings := max 1 (min (3 / 2) (js_or_real r 1))\<rparr>)"

definition saveNbackSettings :: "state \<Rightarrow> state" where
  "saveNbackSettings s =
     (case setItem ''pasatNbackSettings'' (StoredNback (nbackSettings s)) s of
        Some s' \<Rightarrow> s' | None \<Rightarrow> s)"

definition saveCustomModeSettings :: "state \<Rightarrow> state" where
  "saveCustomModeSettings s =
     (case setItem ''pasatCustomModeSettings'' (StoredMode (customModeSettings s)) s of
        Some s' \<Rightarrow> s' | None \<Rightarrow> s)"

definition saveBeepSettings :: "state \<Rightarrow> state" where
  "saveBeepSettings s =
     (case setItem ''pasatBeepSettings'' (StoredBeep (beepSettings s)) s of
        Some s' \<Rightarrow> s' | None \<Rightarrow> s)"

definition saveAudioSpeedSettings :: "state \<Rightarrow> state" where
  "saveAudioSpeedSettings s =
     (case setItem ''pasatAudioSpeedSettings'' (StoredRate (audioSpeedSettings s)) s of
        Some s' \<Rightarrow> s' | None \<Rightarrow> s)"

text \<open>The click listener of the custom-mode button.\<close>

definition customMode_click :: "state \<Rightarrow> state" where
  "customMode_click s =
     (let s = s\<lparr>isStandardMode := False, isCustomMode := True, isManualMode := False\<rparr>;
          s = s\<lparr>selectedISI := ms_selectedISI (customModeSettings s),
                sessionDuration := ms_sessionDuration (customModeSettings s)\<rparr>
      in updateCustomModeUI s)"

text \<open>
  The click listener of the manual-mode button, and that of an ISI button with
  \<^verbatim>\<open>parseInt\<close> of its \<^verbatim>\<open>data-isi\<close> (a number here). In manual mode the ISI button
  writes \<^verbatim>\<open>localStorage\<close> outside any \<^verbatim>\<open>try\<close>: when the store throws, the rest of the
  listener does not run.
\<close>

definition manualMode_click :: "state \<Rightarrow> state" where
  "manualMode_click s =
     (let s = s\<lparr>isStandardMode := False, isCustomMode := False, isManualMode := True\<rparr>;
          s = s\<lparr>selectedISI := ms_selectedISI (manualModeSettings s),
                sessionDuration := ms_sessionDuration (manualModeSettings s)\<rparr>;
          s = updateManualModeUI s
      in if selectedISI s \<noteq> 0 then s\<lparr>currentISIValue := selectedISI s\<rparr> else s)"

definition isiButton_click :: "int \<Rightarrow> state \<Rightarrow> state" where
  "isiButton_click isiValue s =
     (if isiValue \<ge> 500 then
        let s = s\<lparr>selectedISI := max 500 isiValue\<rparr> in
        if isCustomMode s then
          let s = saveCustomModeSettings
                    (s\<lparr>customModeSettings :=
                        (customModeSettings s)\<lparr>ms_selectedISI := selectedISI s\<rparr>\<rparr>)
          in if isManualMode s then s\<lparr>currentISIValue := selectedISI s\<rparr> else s
        else if isManualMode s then
          let s = s\<lparr>manualModeSettings :=
                      (manualModeSettings s)\<lparr>ms_selectedISI := selectedISI s\<rparr>\<rparr>
          in (case setItem ''pasatManualModeSettings'' (StoredMode (manualModeSettings s)) s of
                None \<Rightarrow> s
              | Some s \<Rightarrow> if isManualMode s then s\<lparr>currentISIValue := selectedISI s\<rparr> else s)
        else s
      else s)"

subsection \<open>Events of a running session\<close>

text \<open>
  What can happen while the training screen is shown: a pending callback fires (with the
  clock value, and for a presentation the digit drawn and the clock value after the
  \<^verbatim>\<open>await\<close>), a number-pad button is pressed, the text of the answer field changes, Enter
  is released in it, or the End button is clicked. A timeout leaves the pending callbacks
  when it fires; the interval of \<^verbatim>\<open>updateTimer\<close> stays.
\<close>

datatype event =
    Fire nat int int int
  | NumberpadPress jsval int
  | InputText field_text int
  | EnterKey int
  | EndTraining int

definition fire :: "nat \<Rightarrow> int \<Rightarrow> int \<Rightarrow> int \<Rightarrow> state \<Rightarrow> state" where
  "fire i now digit after s =
     (case map_of (pending s) i of
        None \<Rightarrow> s
      | Some UpdateTimer \<Rightarrow> updateTimer now s
      | Some PresentNextNumber \<Rightarrow> presentNextNumber digit now after (clearTimeout i s)
      | Some (AnswerTimeout trialId trialPresentationTime) \<Rightarrow>
          answerTimeout trialId trialPresentationTime now (clearTimeout i s)
      | Some SpeakSettled \<Rightarrow> afterSpeak now ((clearTimeout i s)\<lparr>audioPlayInProgress := False\<rparr>)
      | Some RemoveIncorrectSelection \<Rightarrow> clearTimeout i s
      | Some PlayErrorBeep \<Rightarrow> playErrorBeep_deferred (clearTimeout i s)
      | Some RemoveBeepAudio \<Rightarrow> clearTimeout i s)"

fun step :: "event \<Rightarrow> state \<Rightarrow> state" where
  "step (Fire i now digit after) s = fire i now digit after s"
| "step (NumberpadPress v now) s = handleButtonInteraction v now s"
| "step (InputText txt now) s = answerInput_input now (s\<lparr>answerInput := txt\<rparr>)"
| "step (EnterKey now) s = answerInput_keyup_Enter now s"
| "step (EndTraining now) s = endSession now s"

text \<open>A run: the events in the order they happen.\<close>

definition run :: "event list \<Rightarrow> state \<Rightarrow> state" where
  "run evs s = fold step evs s"

subsection \<open>The state of a freshly loaded page\<close>

text \<open>
  The initial values of the global variables, with the answer controls empty, the N-back
  input showing the default depth, no callback pending, and \<open>st\<close> in \<^verbatim>\<open>localStorage\<close>.
\<close>

definition initial :: "(string \<rightharpoonup> stored) \<Rightarrow> state" where
  "initial st =
     \<lparr>howlReady = False,
      currentNumber = Null,
      lastPresentedNumber = Null,
      correctAnswer = Null,
      currentIntervalId = None,
      audioPlayInProgress = False,
      processingAnswer = False,
      nextPresentationTime = 0,
      forcePresentNextNumber = False,
      useNumberPad = False,
      answerProcessed = False,
      nbackValue = 1,
      numberSequence = [],
      currentTrialId = 0,
      nextNumberScheduled = False,
      trainingTimerId = None,
      currentISIValue = 3000,
      consecutiveCorrect = 0,
      consecutiveIncorrect = 0,
      sessionHistory = [],
      totalCorrect = 0,
      totalAttempts = 0,
      lowestISI = 3000,
      remainingTime = 20 * 60,
      sessionActive = False,
      isStandardMode = True,
      isCustomMode = False,
      isManualMode = False,
      standardModeSettings = \<lparr>ms_selectedISI = 3000, ms_sessionDuration = 20\<rparr>,
      manualModeSettings = \<lparr>ms_selectedISI = 3000, ms_sessionDuration = 20\<rparr>,
      customModeSettings = \<lparr>ms_selectedISI = 3000, ms_sessionDuration = 20\<rparr>,
      selectedISI = 3000,
      sessionDuration = 20,
      nbackSettings = 1,
      beepSettings = \<lparr>enabled = False, volume = 1 / 2\<rparr>,
      audioSpeedSettings = 1,
      allSessions = [],
      answerInput = Blank,
      selectedButton = None,
      nbackInput = Some (Num 1),
      errorBeeps = 0,
      beepSoundLoaded = False,
      pending = [],
      nextTimerId = 1,
      storage = st,
      storageAvailable = True\<rparr>"

section \<open>Notions used in the statements\<close>

text \<open>
  The guards of \<^verbatim>\<open>processAnswer\<close> taken together: no resolution is in flight, a correct
  answer exists, and the last trial is unanswered and is the trial of that answer.
\<close>

definition canResolve :: "state \<Rightarrow> bool" where
  "canResolve s =
     (\<not> processingAnswer s \<and> correctAnswer s \<noteq> Null \<and> sessionHistory s \<noteq> [] \<and>
      t_userAnswer (last (sessionHistory s)) = Null \<and>
      js_seq (t_correctAnswer (last (sessionHistory s))) (correctAnswer s))"

text \<open>
  The trial that the deadline callback looks up, and its index, under the names the
  callback gives them.
\<close>

definition targetTrial :: "nat \<Rightarrow> state \<Rightarrow> trial option" where
  "targetTrial trialId s = find (\<lambda>t. t_trialId t = trialId) (sessionHistory s)"

definition targetTrialIndex :: "nat \<Rightarrow> state \<Rightarrow> int" where
  "targetTrialIndex trialId s = findIndex (\<lambda>t. t_trialId t = trialId) (sessionHistory s)"

text \<open>
  The trial with identifier \<open>tid\<close> is the current one, it is unanswered, its correct
  answer \<open>c\<close> is the global \<^verbatim>\<open>correctAnswer\<close>, and no resolution is claimed or in flight;
  trial identifiers are unique, as \<^verbatim>\<open>currentTrialId++\<close> makes them.
\<close>

definition openTrialFor :: "nat \<Rightarrow> int \<Rightarrow> state \<Rightarrow> bool" where
  "openTrialFor tid c s =
     (sessionHistory s \<noteq> [] \<and> distinct (map t_trialId (sessionHistory s)) \<and>
      t_trialId (last (sessionHistory s)) = tid \<and>
      t_userAnswer (last (sessionHistory s)) = Null \<and>
      t_correctAnswer (last (sessionHistory s)) = Num c \<and> correctAnswer s = Num c \<and>
      \<not> processingAnswer s \<and> \<not> answerProcessed s)"

text \<open>
  The immediate path for the answer \<open>c\<close>: the value is pressed on the number pad, typed
  into the answer field, or already in the field when Enter is released.
\<close>

definition submits :: "event \<Rightarrow> int \<Rightarrow> state \<Rightarrow> bool" where
  "submits e c s =
     (case e of
        NumberpadPress v n \<Rightarrow> v = Num c
      | InputText txt n \<Rightarrow> txt = Text (Num c)
      | EnterKey n \<Rightarrow> answerInput s = Text (Num c)
      | _ \<Rightarrow> False)"

text \<open>The session counters, the difficulty and the mode are the same in two states.\<close>

definition same_score :: "state \<Rightarrow> state \<Rightarrow> bool" where
  "same_score s s' =
     (totalAttempts s' = totalAttempts s \<and> totalCorrect s' = totalCorrect s \<and>
      consecutiveCorrect s' = consecutiveCorrect s \<and>
      consecutiveIncorrect s' = consecutiveIncorrect s \<and>
      currentISIValue s' = currentISIValue s \<and> lowestISI s' = lowestISI s \<and>
      isManualMode s' = isManualMode s \<and> selectedISI s' = selectedISI s)"

text \<open>
  The counters and the difficulty of \<open>s'\<close> are those of \<open>s\<close> after one trial was scored by
  \<^verbatim>\<open>processAnswer\<close>, as correct (\<open>c\<close>) or not.
\<close>

definition scored :: "bool \<Rightarrow> state \<Rightarrow> state \<Rightarrow> bool" where
  "scored c s s' =
     (isManualMode s' = isManualMode s \<and> selectedISI s' = selectedISI s \<and>
      totalAttempts s' = totalAttempts s + 1 \<and>
      totalCorrect s' = (if c then totalCorrect s + 1 else totalCorrect s) \<and>
      consecutiveCorrect s' =
        (if c then (if \<not> isManualMode s \<and> consecutiveCorrect s + 1 \<ge> 4 then 0
                    else consecutiveCorrect s + 1)
         else 0) \<and>
      consecutiveIncorrect s' =
        (if c then 0
         else (if \<not> isManualMode s \<and> consecutiveIncorrect s + 1 \<ge> 4 then 0
               else consecutiveIncorrect s + 1)) \<and>
      currentISIValue s' =
        (if isManualMode s then selectedISI s
         else if c then (if consecutiveCorrect s + 1 \<ge> 4
                         then max 500 (currentISIValue s - 100) else currentISIValue s)
         else (if consecutiveIncorrect s + 1 \<ge> 4
               then min 5000 (currentISIValue s + 100) else currentISIValue s)) \<and>
      lowestISI s' =
        (if \<not> isManualMode s \<and> c \<and> consecutiveCorrect s + 1 \<ge> 4
         then min (lowestISI s) (max 500 (currentISIValue s - 100)) else lowestISI s))"

text \<open>The same after a late resolution by the deadline callback, which is always incorrect.\<close>

definition late_scored :: "state \<Rightarrow> state \<Rightarrow> bool" where
  "late_scored s s' =
     (isManualMode s' = isManualMode s \<and> selectedISI s' = selectedISI s \<and>
      totalAttempts s' = totalAttempts s + 1 \<and>
      totalCorrect s' = totalCorrect s \<and>
      consecutiveCorrect s' = 0 \<and>
      consecutiveIncorrect s' =
        (if \<not> isManualMode s \<and> consecutiveIncorrect s + 1 \<ge> 4 then 0
         else consecutiveIncorrect s + 1) \<and>
      currentISIValue s' =
        (if \<not> isManualMode s \<and> consecutiveIncorrect s + 1 \<ge> 4
         then min 5000 (currentISIValue s + 100) else currentISIValue s) \<and>
      lowestISI s' = lowestISI s)"

text \<open>What one event can do to the counters and the difficulty.\<close>

definition effect :: "state \<Rightarrow> state \<Rightarrow> bool" where
  "effect s s' = (same_score s s' \<or> scored True s s' \<or> scored False s s' \<or> late_scored s s')"

text \<open>
  How one event can change the history: not at all, by writing one trial that had no
  answer, or by adding a trial at the end.
\<close>

definition hist_step :: "trial list \<Rightarrow> trial list \<Rightarrow> bool" where
  "hist_step h h' =
     (h' = h \<or> (\<exists>k x. k < length h \<and> t_userAnswer (h ! k) = Null \<and> h' = h[k := x]) \<or>
      (\<exists>t. h' = h @ [t]))"


text \<open>
  Two states have the same digits, the same depth, and trials with the same current
  numbers and correct answers.
\<close>

definition same_trials :: "state \<Rightarrow> state \<Rightarrow> bool" where
  "same_trials s s' =
     (numberSequence s' = numberSequence s \<and> nbackValue s' = nbackValue s \<and>
      map t_currentNumber (sessionHistory s') = map t_currentNumber (sessionHistory s) \<and>
      map t_correctAnswer (sessionHistory s') = map t_correctAnswer (sessionHistory s))"

section \<open>Example sessions\<close>

text \<open>
  A session started on a freshly loaded page in standard mode, before the sounds are
  loaded. The handles of its first timers are 1 (the clock) and 2 (the first
  presentation).
\<close>

definition fresh_session :: state where
  "fresh_session = startSession (initial Map.empty)"

text \<open>
  The digits 4, 7, 2, 1, 5 are presented three seconds apart, and every sum (11, 9, 3, 6)
  is typed one second after its digit; the deadline of an answered trial fires right
  after the next presentation.
\<close>

definition four_correct_events :: "event list" where
  "four_correct_events =
     [Fire 2 1000 4 1000,
      Fire 3 4000 7 4000, InputText (Text (Num 11)) 5000,
      Fire 4 7000 2 7000, Fire 5 7000 0 7000, InputText (Text (Num 9)) 8000,
      Fire 6 10000 1 10000, Fire 7 10000 0 10000, InputText (Text (Num 3)) 11000,
      Fire 8 13000 5 13000, Fire 9 13000 0 13000, InputText (Text (Num 6)) 14000]"

text \<open>
  Six digits are presented and nothing is answered: each deadline fires right after the
  next presentation. At the end three trials are scored, the fourth is stale and its
  deadline (handle 11) still pending, the fifth is open.
\<close>

definition no_answer_events :: "event list" where
  "no_answer_events =
     [Fire 2 1000 4 1000,
      Fire 3 4000 7 4000,
      Fire 4 7000 2 7000, Fire 5 7000 0 7000,
      Fire 6 10000 1 10000, Fire 7 10000 0 10000,
      Fire 8 13000 5 13000, Fire 9 13000 0 13000,
      Fire 10 16000 3 16000]"

text \<open>
  Three digits are presented; the first trial is left unanswered, and the answer to the
  second is typed just after the third digit, before the first trial's deadline (handle
  5) fires.
\<close>

definition newer_claimed_events :: "event list" where
  "newer_claimed_events =
     [Fire 2 1000 4 1000,
      Fire 3 4000 7 4000,
      Fire 4 7000 2 7000, InputText (Text (Num 9)) 7000]"




text \<open>
  A session in which \<open>n\<close> trials pass unanswered: after the first two digits, each round
  presents one more digit and then fires the deadline of the trial before it. The
  handles follow the order in which \<^verbatim>\<open>presentNextNumber\<close> sets its two timers.
\<close>

definition unanswered_session :: "nat \<Rightarrow> event list" where
  "unanswered_session n =
     [Fire 2 1000 4 1000, Fire 3 7000 7 7000] @
     concat (map (\<lambda>k. [Fire (2 * k + 2) (7000 + 6000 * int k) 5 (7000 + 6000 * int k),
                        Fire (2 * k + 3) (7000 + 6000 * int k) 0 (7000 + 6000 * int k)])
               [1..<n + 1])"

text \<open>
  The same start with the sounds loaded, and a session in which two digits are played and
  heard to the end (handles 3 and 5 settle the playback), the first trial opens, and the
  End button is clicked before its deadline (handle 7).
\<close>

definition audio_session :: state where
  "audio_session = startSession ((initial Map.empty)\<lparr>howlReady := True\<rparr>)"

definition ended_with_audio_events :: "event list" where
  "ended_with_audio_events =
     [Fire 2 1000 4 1000, Fire 3 1500 0 1500,
      Fire 4 4500 7 4500, Fire 5 5000 0 5000,
      EndTraining 6000]"

section \<open>The oracle and the trials it serves\<close>

lemma calculateNbackAnswer_deep:
  "1 \<le> nback \<Longrightarrow> nback + 1 \<le> int (length sequence) \<Longrightarrow>
   calculateNbackAnswer currentNum sequence nback =
     Num (currentNum + sequence ! (length sequence - 1 - nat nback))"
proof -
  assume a: "1 \<le> nback" and b: "nback + 1 \<le> int (length sequence)"
  have i: "nat (int (length sequence) - nback - 1) = length sequence - 1 - nat nback"
    using a b by linarith
  show ?thesis
    using a b by (simp add: calculateNbackAnswer_def js_index_def js_add_def i)
qed


text \<open>
  The presentation asks the oracle once the sequence, the new digit included, has
  \<open>nback + 1\<close> digits; the trial created then has the new digit, the digit \<open>nback\<close>
  positions back, and their sum as its correct answer.
\<close>

lemma presentNumber_history:
  "sessionHistory (presentNumber digit s) =
     (if int (length (numberSequence s)) + 1 \<ge> nbackValue s + 1
      then sessionHistory (openTrial digit
             (s\<lparr>forcePresentNextNumber := False, currentNumber := Num digit,
                numberSequence := numberSequence s @ [digit]\<rparr>))
      else sessionHistory s)"
  by (simp add: presentNumber_def Let_def)

lemma openTrial_history:
  "sessionHistory (openTrial digit s) =
     sessionHistory s @
       [\<lparr>t_nbackValue = nbackValue s, t_currentNumber = digit,
         t_previousNumber =
           js_index (numberSequence s) (int (length (numberSequence s)) - nbackValue s - 1),
         t_correctAnswer = calculateNbackAnswer digit (numberSequence s) (nbackValue s),
         t_userAnswer = Null, t_correct = None, t_isi = currentISIValue s,
         t_trialId = currentTrialId s + 1, t_responseTime = None\<rparr>]"
  by (simp add: openTrial_def Let_def)

lemma created_trial:
  "1 \<le> nbackValue s \<Longrightarrow> nbackValue s \<le> int (length (numberSequence s)) \<Longrightarrow>
   length (sessionHistory (presentNumber digit s)) = length (sessionHistory s) + 1 \<and>
   t_currentNumber (last (sessionHistory (presentNumber digit s))) = digit \<and>
   t_previousNumber (last (sessionHistory (presentNumber digit s))) =
     Num (numberSequence s ! (length (numberSequence s) - nat (nbackValue s))) \<and>
   t_correctAnswer (last (sessionHistory (presentNumber digit s))) =
     Num (digit + numberSequence s ! (length (numberSequence s) - nat (nbackValue s)))"
proof -
  assume a: "1 \<le> nbackValue s" and b: "nbackValue s \<le> int (length (numberSequence s))"
  let ?n = "length (numberSequence s)"
  let ?seq = "numberSequence s @ [digit]"
  have j: "?n - nat (nbackValue s) < ?n" using a b by linarith
  have d: "calculateNbackAnswer digit ?seq (nbackValue s) =
      Num (digit + ?seq ! (length ?seq - 1 - nat (nbackValue s)))"
    using a b by (intro calculateNbackAnswer_deep) simp_all
  have p: "js_index ?seq (int (length ?seq) - nbackValue s - 1) =
      Num (?seq ! (?n - nat (nbackValue s)))"
  proof -
    have "nat (int (length ?seq) - nbackValue s - 1) = ?n - nat (nbackValue s)"
      using a b by simp
    then show ?thesis using a b by (simp add: js_index_def)
  qed
  have e: "?seq ! (?n - nat (nbackValue s)) = numberSequence s ! (?n - nat (nbackValue s))"
    using j by (simp add: nth_append)
  have h: "sessionHistory (presentNumber digit s) =
      sessionHistory (openTrial digit
        (s\<lparr>forcePresentNextNumber := False, currentNumber := Num digit,
           numberSequence := ?seq\<rparr>))"
    using b by (simp add: presentNumber_history)
  show ?thesis
    unfolding h openTrial_history using d p e by simp
qed

lemma sequence_frame:
  "numberSequence (snd (setTimeout cb s)) = numberSequence s"
  "numberSequence (clearCurrentInterval s) = numberSequence s"
  "nbackValue (clearCurrentInterval s) = nbackValue s"
  "sessionHistory (clearCurrentInterval s) = sessionHistory s"
  "sessionHistory (snd (setTimeout cb s)) = sessionHistory s"
  "sessionHistory (speakNumber_then after s) = sessionHistory s"
  "numberSequence (speakNumber_then after s) = numberSequence s"
  by (simp_all add: setTimeout_def clearTimeout_def clearCurrentInterval_def scheduleNext_def
        afterSpeak_def speakNumber_then_def Let_def split: option.split)




subsection \<open>Frame and effect of the resolution code\<close>

lemma same_score_refl [simp]: "same_score s s"
  by (simp add: same_score_def)

lemma same_score_upd [simp]:
  "same_score s (s'\<lparr>howlReady := x1\<rparr>) = same_score s s'"
  "same_score s (s'\<lparr>currentNumber := x2\<rparr>) = same_score s s'"
  "same_score s (s'\<lparr>lastPresentedNumber := x3\<rparr>) = same_score s s'"
  "same_score s (s'\<lparr>correctAnswer := x4\<rparr>) = same_score s s'"
  "same_score s (s'\<lparr>currentIntervalId := x5\<rparr>) = same_score s s'"
  "same_score s (s'\<lparr>audioPlayInProgress := x6\<rparr>) = same_score s s'"
  "same_score s (s'\<lparr>processingAnswer := x7\<rparr>) = same_score s s'"
  "same_score s (s'\<lparr>nextPresentationTime := x8\<rparr>) = same_score s s'"
  "same_score s (s'\<lparr>forcePresentNextNumber := x9\<rparr>) = same_score s s'"
  "same_score s (s'\<lparr>answerProcessed := x10\<rparr>) = same_score s s'"
  "same_score s (s'\<lparr>numberSequence := x11\<rparr>) = same_score s s'"
  "same_score s (s'\<lparr>currentTrialId := x12\<rparr>) = same_score s s'"
  "same_score s (s'\<lparr>nextNumberScheduled := x13\<rparr>) = same_score s s'"
  "same_score s (s'\<lparr>trainingTimerId := x14\<rparr>) = same_score s s'"
  "same_score s (s'\<lparr>sessionHistory := x15\<rparr>) = same_score s s'"
  "same_score s (s'\<lparr>remainingTime := x16\<rparr>) = same_score s s'"
  "same_score s (s'\<lparr>sessionActive := x17\<rparr>) = same_score s s'"
  "same_score s (s'\<lparr>allSessions := x18\<rparr>) = same_score s s'"
  "same_score s (s'\<lparr>answerInput := x19\<rparr>) = same_score s s'"
  "same_score s (s'\<lparr>selectedButton := x20\<rparr>) = same_score s s'"
  "same_score s (s'\<lparr>errorBeeps := x21\<rparr>) = same_score s s'"
  "same_score s (s'\<lparr>pending := x22\<rparr>) = same_score s s'"
  "same_score s (s'\<lparr>nextTimerId := x23\<rparr>) = same_score s s'"
  "same_score s (s'\<lparr>storage := x24\<rparr>) = same_score s s'"
  by (simp_all add: same_score_def)

lemma same_score_timers [simp]:
  "same_score s (snd (setTimeout cb s')) = same_score s s'"
  "same_score s (clearTimeout i s') = same_score s s'"
  "same_score s (clearCurrentInterval s') = same_score s s'"
  "same_score s (clearTrainingTimer s') = same_score s s'"
  "same_score s (stopAllAudio s') = same_score s s'"
  "same_score s (playErrorBeep s') = same_score s s'"
  by (simp_all add: setTimeout_def clearTimeout_def clearCurrentInterval_def
        clearTrainingTimer_def stopAllAudio_def playErrorBeep_def split: option.split)

lemma same_score_scheduleNext [simp]: "same_score s (scheduleNext now s') = same_score s s'"
  by (simp add: scheduleNext_def Let_def)

lemma same_score_afterSpeak [simp]: "same_score s (afterSpeak now s') = same_score s s'"
  by (simp add: afterSpeak_def Let_def)

lemma same_score_speakNumber_then [simp]:
  "same_score s (speakNumber_then after s') = same_score s s'"
  by (simp add: speakNumber_then_def)

lemma same_score_openTrial [simp]: "same_score s (openTrial digit s') = same_score s s'"
  by (simp add: openTrial_def Let_def)

lemma same_score_presentNumber [simp]: "same_score s (presentNumber digit s') = same_score s s'"
  by (simp add: presentNumber_def Let_def)

lemma same_score_presentNextNumber [simp]:
  "same_score s (presentNextNumber digit currentTime after s') = same_score s s'"
  by (simp add: presentNextNumber_def Let_def)

lemma same_score_endSession [simp]: "same_score s (endSession now s') = same_score s s'"
  by (simp add: endSession_def addSessionToHistory_def saveSessions_def setItem_def Let_def)

lemma same_score_updateTimer [simp]: "same_score s (updateTimer now s') = same_score s s'"
  by (simp add: updateTimer_def Let_def)


lemma processingAnswer_False_id: "\<not> processingAnswer s \<Longrightarrow> s\<lparr>processingAnswer := False\<rparr> = s"
  by (cases s) simp

lemma processAnswer_fst: "fst (processAnswer v now s) = canResolve s"
  by (simp add: processAnswer_def canResolve_def Let_def)

lemma processAnswer_rejected: "\<not> canResolve s \<Longrightarrow> snd (processAnswer v now s) = s"
  by (auto simp add: processAnswer_def canResolve_def Let_def processingAnswer_False_id)

lemma scored_upd [simp]:
  "scored c s (s'\<lparr>processingAnswer := x7\<rparr>) = scored c s s'"
  "scored c s (s'\<lparr>answerProcessed := x10\<rparr>) = scored c s s'"
  "scored c s (s'\<lparr>answerInput := x19\<rparr>) = scored c s s'"
  "scored c s (s'\<lparr>selectedButton := x20\<rparr>) = scored c s s'"
  "scored c s (s'\<lparr>sessionHistory := x15\<rparr>) = scored c s s'"
  "scored c s (playErrorBeep s') = scored c s s'"
  "scored c s (clearInput b s') = scored c s s'"
  "scored c s (clearInputAfterTimeout s') = scored c s s'"
  by (simp_all add: scored_def playErrorBeep_def setTimeout_def clearInput_def
        clearInputAfterTimeout_def)

lemma scored_left_upd [simp]:
  "scored c (s\<lparr>processingAnswer := x7\<rparr>) s' = scored c s s'"
  "scored c (s\<lparr>answerProcessed := x10\<rparr>) s' = scored c s s'"
  "scored c (s\<lparr>selectedButton := x20\<rparr>) s' = scored c s s'"
  "scored c (s\<lparr>answerInput := x19\<rparr>) s' = scored c s s'"
  "scored c (s\<lparr>pending := x22\<rparr>) s' = scored c s s'"
  by (simp_all add: scored_def)

lemma scored_update: "scored c s (updateISI (updateCounters c s))"
  by (simp add: scored_def updateISI_def updateCounters_def Let_def)

lemma scored_update_record:
  "scored c s (updateISI (updateCounters c (recordAnswer v rt c' s)))"
  by (simp add: scored_def updateISI_def updateCounters_def Let_def recordAnswer_def)

lemma processAnswer_scored:
  "canResolve s \<Longrightarrow>
   scored (isCorrectFor v (last (sessionHistory s))) s (snd (processAnswer v now s))"
  using scored_update_record [of _ "s\<lparr>processingAnswer := True\<rparr>"]
  by (simp add: processAnswer_def canResolve_def Let_def)

lemma canResolve_upd [simp]:
  "canResolve (s\<lparr>answerProcessed := x10\<rparr>) = canResolve s"
  "canResolve (s\<lparr>selectedButton := x20\<rparr>) = canResolve s"
  "canResolve (s\<lparr>answerInput := x19\<rparr>) = canResolve s"
  "canResolve (s\<lparr>pending := x22\<rparr>) = canResolve s"
  by (simp_all add: canResolve_def)

lemma same_score_sym_upd [simp]:
  "same_score (s\<lparr>answerProcessed := x10\<rparr>) s' = same_score s s'"
  "same_score (s\<lparr>selectedButton := x20\<rparr>) s' = same_score s s'"
  "same_score (s\<lparr>answerInput := x19\<rparr>) s' = same_score s s'"
  "same_score (s\<lparr>pending := x22\<rparr>) s' = same_score s s'"
  "same_score (s\<lparr>audioPlayInProgress := x6\<rparr>) s' = same_score s s'"
  by (simp_all add: same_score_def)

lemma late_scored_upd [simp]:
  "late_scored s (s'\<lparr>sessionHistory := x15\<rparr>) = late_scored s s'"
  "late_scored s (playErrorBeep s') = late_scored s s'"
  "late_scored (s\<lparr>pending := x22\<rparr>) s' = late_scored s s'"
  by (simp_all add: late_scored_def playErrorBeep_def setTimeout_def)

lemma effect_refl [simp]: "effect s s"
  by (simp add: effect_def)

lemma effect_upd [simp]:
  "effect s (s'\<lparr>answerProcessed := x10\<rparr>) = effect s s'"
  "effect s (s'\<lparr>selectedButton := x20\<rparr>) = effect s s'"
  "effect s (s'\<lparr>answerInput := x19\<rparr>) = effect s s'"
  "effect s (clearInputAfterTimeout s') = effect s s'"
  "effect (s\<lparr>answerProcessed := x10\<rparr>) s' = effect s s'"
  "effect (s\<lparr>selectedButton := x20\<rparr>) s' = effect s s'"
  "effect (s\<lparr>answerInput := x19\<rparr>) s' = effect s s'"
  "effect (s\<lparr>pending := x22\<rparr>) s' = effect s s'"
  by (simp_all add: effect_def clearInputAfterTimeout_def late_scored_def)

lemma processAnswer_effect: "effect s (snd (processAnswer v now s))"
proof (cases "canResolve s")
  case True
  then show ?thesis
    using processAnswer_scored [of s v now] by (cases "isCorrectFor v (last (sessionHistory s))") (simp_all add: effect_def)
next
  case False
  then show ?thesis by (simp add: processAnswer_rejected)
qed

lemma processImmediately_effect: "effect s (snd (processImmediately v now s))"
  using processAnswer_effect [of "s\<lparr>answerProcessed := True\<rparr>" v now]
  by (simp add: processImmediately_def Let_def)

lemma timeoutProcess_effect: "effect s (timeoutProcess now s)"
  using processAnswer_effect [of "s\<lparr>answerProcessed := True\<rparr>" _ now]
  by (simp add: timeoutProcess_def Let_def)

lemma lateResolve_late_scored: "late_scored s (lateResolve t i rt s)"
  by (simp add: lateResolve_def lateUpdateISI_def Let_def late_scored_def playErrorBeep_def
        setTimeout_def)

lemma answerTimeout_effect: "effect s (answerTimeout tid tp now s)"
  using lateResolve_late_scored timeoutProcess_effect
  by (auto simp add: answerTimeout_def Let_def effect_def split: option.split)

lemma effect_timers [simp]:
  "effect s (snd (setTimeout cb s')) = effect s s'"
  "effect s (clearTimeout i s') = effect s s'"
  "effect s (playErrorBeep_deferred s') = effect s s'"
  "effect (clearTimeout i s) s' = effect s s'"
  by (simp_all add: effect_def scored_def late_scored_def same_score_def setTimeout_def
        clearTimeout_def playErrorBeep_deferred_def)

lemma handleButtonInteraction_effect: "effect s (handleButtonInteraction v now s)"
  using processImmediately_effect [of "s\<lparr>selectedButton := Some v\<rparr>" v now]
  by (simp add: handleButtonInteraction_def Let_def)

lemma answerInput_input_effect: "effect s (answerInput_input now s)"
  using processImmediately_effect [of s _ now]
  by (simp add: answerInput_input_def split: field_text.split)

lemma answerInput_keyup_Enter_effect: "effect s (answerInput_keyup_Enter now s)"
  using processImmediately_effect [of s _ now]
  by (simp add: answerInput_keyup_Enter_def split: field_text.split)

lemma same_score_effect: "same_score s s' \<Longrightarrow> effect s s'"
  by (simp add: effect_def)

lemma fire_effect: "effect s (fire i now digit after s)"
proof (cases "map_of (pending s) i")
  case None
  then show ?thesis by (simp add: fire_def)
next
  case (Some cb)
  then show ?thesis
    using answerTimeout_effect [of "clearTimeout i s"]
    by (cases cb) (simp_all add: fire_def same_score_effect)
qed

lemma step_effect: "effect s (step e s)"
  using answerInput_input_effect [of "s\<lparr>answerInput := _\<rparr>"]
  by (cases e)
     (simp_all add: fire_effect handleButtonInteraction_effect
        answerInput_keyup_Enter_effect same_score_effect)

subsection \<open>Runs of events\<close>

lemma run_Nil [simp]: "run [] s = s"
  by (simp add: run_def)

lemma run_Cons [simp]: "run (e # evs) s = run evs (step e s)"
  by (simp add: run_def)

lemma run_append: "run (evs @ evs') s = run evs' (run evs s)"
  by (simp add: run_def)

lemma effect_mono:
  "effect s s' \<Longrightarrow>
   totalAttempts s \<le> totalAttempts s' \<and> totalCorrect s \<le> totalCorrect s' \<and>
   totalAttempts s + totalCorrect s' \<le> totalAttempts s' + totalCorrect s"
  by (auto simp add: effect_def same_score_def scored_def late_scored_def)

lemma run_mono:
  "totalAttempts s \<le> totalAttempts (run evs s) \<and> totalCorrect s \<le> totalCorrect (run evs s) \<and>
   totalAttempts s + totalCorrect (run evs s) \<le> totalAttempts (run evs s) + totalCorrect s"
proof (induction evs arbitrary: s)
  case Nil
  show ?case by simp
next
  case (Cons e evs)
  from effect_mono [OF step_effect [of s e]] Cons.IH [of "step e s"]
  show ?case by simp
qed

lemma effect_no_attempt:
  "effect s s' \<Longrightarrow> totalAttempts s' = totalAttempts s \<Longrightarrow> same_score s s'"
  by (auto simp add: effect_def scored_def late_scored_def)

lemma same_score_trans: "same_score s s' \<Longrightarrow> same_score s' s'' \<Longrightarrow> same_score s s''"
  by (simp add: same_score_def)

lemma run_no_attempt:
  "totalAttempts (run evs s) = totalAttempts s \<Longrightarrow> same_score s (run evs s)"
proof (induction evs arbitrary: s)
  case Nil
  show ?case by simp
next
  case (Cons e evs)
  have m: "totalAttempts (step e s) \<le> totalAttempts (run evs (step e s))"
    using run_mono [of "step e s" evs] by simp
  have e: "totalAttempts s \<le> totalAttempts (step e s)"
    using effect_mono [OF step_effect [of s e]] by simp
  from Cons.prems m e have a: "totalAttempts (step e s) = totalAttempts s" by simp
  then have b: "totalAttempts (run evs (step e s)) = totalAttempts (step e s)"
    using Cons.prems by simp
  from effect_no_attempt [OF step_effect a] Cons.IH [OF b]
  show ?case by (simp add: same_score_trans)
qed

lemma four_correct_general:
  "\<not> isManualMode s \<Longrightarrow> currentISIValue s = 3000 \<Longrightarrow> consecutiveCorrect s = k \<Longrightarrow> k < 4 \<Longrightarrow>
   totalAttempts (run evs s) = totalAttempts s + (4 - k) \<Longrightarrow>
   totalCorrect (run evs s) = totalCorrect s + (4 - k) \<Longrightarrow>
   currentISIValue (run evs s) = 2900"
proof (induction evs arbitrary: s k)
  case Nil
  then show ?case by simp
next
  case (Cons e evs)
  let ?s1 = "step e s"
  have eff: "effect s ?s1" by (rule step_effect)
  have mono: "totalAttempts ?s1 + totalCorrect (run evs ?s1) \<le> totalAttempts (run evs ?s1) + totalCorrect ?s1"
    using run_mono [of ?s1 evs] by simp
  from eff consider
      (same) "same_score s ?s1"
    | (right) "scored True s ?s1"
    | (wrong) "scored False s ?s1 \<or> late_scored s ?s1"
    by (auto simp add: effect_def)
  then show ?case
  proof cases
    case same
    then have "\<not> isManualMode ?s1" "currentISIValue ?s1 = 3000" "consecutiveCorrect ?s1 = k"
      "totalAttempts (run evs ?s1) = totalAttempts ?s1 + (4 - k)"
      "totalCorrect (run evs ?s1) = totalCorrect ?s1 + (4 - k)"
      using Cons.prems by (simp_all add: same_score_def)
    from Cons.IH [OF this(1,2,3) \<open>k < 4\<close> this(4,5)] show ?thesis by simp
  next
    case right
    show ?thesis
    proof (cases "k = 3")
      case True
      with right Cons.prems have i: "currentISIValue ?s1 = 2900"
        and a: "totalAttempts (run evs ?s1) = totalAttempts ?s1"
        by (simp_all add: scored_def)
      from run_no_attempt [OF a] i show ?thesis by (simp add: same_score_def)
    next
      case False
      with right Cons.prems have "\<not> isManualMode ?s1" "currentISIValue ?s1 = 3000"
        "consecutiveCorrect ?s1 = k + 1" "k + 1 < 4"
        "totalAttempts (run evs ?s1) = totalAttempts ?s1 + (4 - (k + 1))"
        "totalCorrect (run evs ?s1) = totalCorrect ?s1 + (4 - (k + 1))"
        by (simp_all add: scored_def)
      from Cons.IH [OF this] show ?thesis by simp
    qed
  next
    case wrong
    then have "totalAttempts ?s1 = totalAttempts s + 1" "totalCorrect ?s1 = totalCorrect s"
      by (auto simp add: scored_def late_scored_def)
    with mono Cons.prems show ?thesis by simp
  qed
qed

lemma effect_isi_inv:
  "effect s s' \<Longrightarrow>
   500 \<le> selectedISI s \<Longrightarrow> selectedISI s \<le> 5000 \<Longrightarrow>
   500 \<le> currentISIValue s \<Longrightarrow> currentISIValue s \<le> 5000 \<Longrightarrow>
   isManualMode s' = isManualMode s \<and> selectedISI s' = selectedISI s \<and>
   500 \<le> currentISIValue s' \<and> currentISIValue s' \<le> 5000 \<and>
   (isManualMode s \<and> currentISIValue s = selectedISI s \<longrightarrow> currentISIValue s' = selectedISI s)"
  by (auto simp add: effect_def same_score_def scored_def late_scored_def)

lemma run_isi_inv:
  "500 \<le> selectedISI s \<Longrightarrow> selectedISI s \<le> 5000 \<Longrightarrow>
   500 \<le> currentISIValue s \<Longrightarrow> currentISIValue s \<le> 5000 \<Longrightarrow>
   isManualMode (run evs s) = isManualMode s \<and> selectedISI (run evs s) = selectedISI s \<and>
   500 \<le> currentISIValue (run evs s) \<and> currentISIValue (run evs s) \<le> 5000 \<and>
   (isManualMode s \<and> currentISIValue s = selectedISI s \<longrightarrow> currentISIValue (run evs s) = selectedISI s)"
proof (induction evs arbitrary: s)
  case Nil
  then show ?case by simp
next
  case (Cons e evs)
  from effect_isi_inv [OF step_effect [of s e] Cons.prems]
  have 1: "isManualMode (step e s) = isManualMode s" "selectedISI (step e s) = selectedISI s"
    "500 \<le> currentISIValue (step e s)" "currentISIValue (step e s) \<le> 5000"
    "isManualMode s \<and> currentISIValue s = selectedISI s \<longrightarrow> currentISIValue (step e s) = selectedISI s"
    by simp_all
  from Cons.IH [of "step e s"] 1 Cons.prems show ?case by simp
qed

lemma startSession_isi:
  "currentISIValue (startSession s) = max 500 (selectedISI s)"
  "selectedISI (startSession s) = max 500 (selectedISI s)"
  "isManualMode (startSession s) = isManualMode s"
  by (simp_all add: startSession_def startTimers_def resetSessionVariables_def readNbackInput_def
        clearCurrentInterval_def clearTimeout_def setTimeout_def stopAllAudio_def Let_def
        split: option.split)

subsection \<open>The deadline callback on a stale trial\<close>

lemma find_findIndex:
  "find P xs = Some t \<Longrightarrow>
   0 \<le> findIndex P xs \<and> findIndex P xs < int (length xs) \<and> xs ! nat (findIndex P xs) = t"
proof (induction xs)
  case Nil
  then show ?case by simp
next
  case (Cons x xs)
  show ?case
  proof (cases "P x")
    case True
    with Cons.prems show ?thesis by simp
  next
    case False
    with Cons.prems have "find P xs = Some t" by simp
    from Cons.IH [OF this] False show ?thesis
      by (simp add: Let_def nat_add_distrib)
  qed
qed

lemma answerTimeout_stale:
  "\<not> answerProcessed s \<Longrightarrow> \<not> processingAnswer s \<Longrightarrow> targetTrial tid s = Some t \<Longrightarrow>
   t_userAnswer t = Null \<Longrightarrow> targetTrialIndex tid s \<noteq> int (length (sessionHistory s)) - 1 \<Longrightarrow>
   answerTimeout tid tp now s = lateResolve t (nat (targetTrialIndex tid s)) (now - tp) s"
  by (simp add: answerTimeout_def targetTrial_def targetTrialIndex_def Let_def)

section \<open>Adaptive difficulty\<close>

text \<open>
  C8. In the automatic modes (\<^verbatim>\<open>isManualMode\<close> false), when \<^verbatim>\<open>processAnswer\<close> scores a
  trial as correct and the correct streak reaches 4, the ISI drops by 100 ms but not below
  500, the streak is reset to 0 and \<^verbatim>\<open>lowestISI\<close> becomes the minimum of its old value and
  the new ISI; when it scores a trial as incorrect (a wrong or a missing answer) and the
  incorrect streak reaches 4, the ISI rises by 100 ms but not above 5000 and the streak is
  reset to 0. The late resolution of a stale trial by the deadline callback, which is
  always incorrect, raises the ISI in the same way.
\<close>

theorem adaptive_rule:
  "\<not> isManualMode s \<Longrightarrow>
   (canResolve s \<and> isCorrectFor v (last (sessionHistory s)) \<and> 4 \<le> consecutiveCorrect s + 1 \<longrightarrow>
      fst (processAnswer v now s) \<and>
      currentISIValue (snd (processAnswer v now s)) = max 500 (currentISIValue s - 100) \<and>
      consecutiveCorrect (snd (processAnswer v now s)) = 0 \<and>
      lowestISI (snd (processAnswer v now s)) =
        min (lowestISI s) (currentISIValue (snd (processAnswer v now s)))) \<and>
   (canResolve s \<and> \<not> isCorrectFor v (last (sessionHistory s)) \<and> 4 \<le> consecutiveIncorrect s + 1 \<longrightarrow>
      fst (processAnswer v now s) \<and>
      currentISIValue (snd (processAnswer v now s)) = min 5000 (currentISIValue s + 100) \<and>
      consecutiveIncorrect (snd (processAnswer v now s)) = 0) \<and>
   (\<not> answerProcessed s \<and> \<not> processingAnswer s \<and> targetTrial tid s = Some t \<and>
    t_userAnswer t = Null \<and> targetTrialIndex tid s \<noteq> int (length (sessionHistory s)) - 1 \<and>
    4 \<le> consecutiveIncorrect s + 1 \<longrightarrow>
      currentISIValue (answerTimeout tid tp now s) = min 5000 (currentISIValue s + 100) \<and>
      consecutiveIncorrect (answerTimeout tid tp now s) = 0)"
proof (intro conjI impI)
  assume m: "\<not> isManualMode s"
  {
    assume a: "canResolve s \<and> isCorrectFor v (last (sessionHistory s)) \<and> 4 \<le> consecutiveCorrect s + 1"
    then have sc: "scored True s (snd (processAnswer v now s))"
      using processAnswer_scored [of s v now] by simp
    from a show "fst (processAnswer v now s)" by (simp add: processAnswer_fst)
    from sc a m show "currentISIValue (snd (processAnswer v now s)) = max 500 (currentISIValue s - 100)"
      by (simp add: scored_def)
    from sc a m show "consecutiveCorrect (snd (processAnswer v now s)) = 0"
      by (simp add: scored_def)
    from sc a m show "lowestISI (snd (processAnswer v now s)) =
        min (lowestISI s) (currentISIValue (snd (processAnswer v now s)))"
      by (simp add: scored_def)
  }
  {
    assume a: "canResolve s \<and> \<not> isCorrectFor v (last (sessionHistory s)) \<and> 4 \<le> consecutiveIncorrect s + 1"
    then have sc: "scored False s (snd (processAnswer v now s))"
      using processAnswer_scored [of s v now] by simp
    from a show "fst (processAnswer v now s)" by (simp add: processAnswer_fst)
    from sc a m show "currentISIValue (snd (processAnswer v now s)) = min 5000 (currentISIValue s + 100)"
      by (simp add: scored_def)
    from sc a m show "consecutiveIncorrect (snd (processAnswer v now s)) = 0"
      by (simp add: scored_def)
  }
  {
    assume a: "\<not> answerProcessed s \<and> \<not> processingAnswer s \<and> targetTrial tid s = Some t \<and>
      t_userAnswer t = Null \<and> targetTrialIndex tid s \<noteq> int (length (sessionHistory s)) - 1 \<and>
      4 \<le> consecutiveIncorrect s + 1"
    then have eq: "answerTimeout tid tp now s = lateResolve t (nat (targetTrialIndex tid s)) (now - tp) s"
      by (simp add: answerTimeout_stale)
    have ls: "late_scored s (answerTimeout tid tp now s)"
      unfolding eq by (rule lateResolve_late_scored)
    from ls a m show "currentISIValue (answerTimeout tid tp now s) = min 5000 (currentISIValue s + 100)"
      by (simp add: late_scored_def)
    from ls a m show "consecutiveIncorrect (answerTimeout tid tp now s) = 0"
      by (simp add: late_scored_def)
  }
qed

text \<open>
  The rule at work: after three correct answers the fourth takes the ISI from 3000 to
  2900; after three unanswered trials a fourth one, scored by \<^verbatim>\<open>processAnswer\<close> with no
  answer or late by the deadline callback, takes it to 3100.
\<close>

theorem adaptive_rule_witness:
  "\<not> isManualMode (run (butlast four_correct_events) fresh_session) \<and>
   canResolve (run (butlast four_correct_events) fresh_session) \<and>
   consecutiveCorrect (run (butlast four_correct_events) fresh_session) = 3 \<and>
   currentISIValue (snd (processAnswer (Num 6) 14000
      (run (butlast four_correct_events) fresh_session))) = 2900 \<and>
   consecutiveCorrect (snd (processAnswer (Num 6) 14000
      (run (butlast four_correct_events) fresh_session))) = 0 \<and>
   lowestISI (snd (processAnswer (Num 6) 14000
      (run (butlast four_correct_events) fresh_session))) = 2900 \<and>
   \<not> isManualMode (run no_answer_events fresh_session) \<and>
   canResolve (run no_answer_events fresh_session) \<and>
   consecutiveIncorrect (run no_answer_events fresh_session) = 3 \<and>
   currentISIValue (snd (processAnswer Null 17000 (run no_answer_events fresh_session))) = 3100 \<and>
   consecutiveIncorrect (snd (processAnswer Null 17000 (run no_answer_events fresh_session))) = 0 \<and>
   currentISIValue (answerTimeout 4 13000 16000 (run no_answer_events fresh_session)) = 3100 \<and>
   consecutiveIncorrect (answerTimeout 4 13000 16000 (run no_answer_events fresh_session)) = 0"
proof -
  let ?A = "run (butlast four_correct_events) fresh_session"
  let ?B = "run no_answer_events fresh_session"
  have a1: "\<not> isManualMode ?A" by code_simp
  have a2: "canResolve ?A" by code_simp
  have a3: "isCorrectFor (Num 6) (last (sessionHistory ?A))" by code_simp
  have a4: "consecutiveCorrect ?A = 3" by code_simp
  have a5: "currentISIValue ?A = 3000" by code_simp
  have a6: "lowestISI ?A = 3000" by code_simp
  have b1: "\<not> isManualMode ?B" by code_simp
  have b2: "canResolve ?B" by code_simp
  have b3: "\<not> isCorrectFor Null (last (sessionHistory ?B))" by code_simp
  have b4: "consecutiveIncorrect ?B = 3" by code_simp
  have b5: "currentISIValue ?B = 3000" by code_simp
  have b6: "\<not> answerProcessed ?B" by code_simp
  have b7: "\<not> processingAnswer ?B" by code_simp
  have b8: "targetTrial 4 ?B = Some (sessionHistory ?B ! 3)" by code_simp
  have b9: "t_userAnswer (sessionHistory ?B ! 3) = Null" by code_simp
  have b10: "targetTrialIndex 4 ?B \<noteq> int (length (sessionHistory ?B)) - 1" by code_simp
  from adaptive_rule [OF a1, where v = "Num 6" and now = 14000] a2 a3 a4 a5 a6
  have A: "currentISIValue (snd (processAnswer (Num 6) 14000 ?A)) = 2900"
    "consecutiveCorrect (snd (processAnswer (Num 6) 14000 ?A)) = 0"
    "lowestISI (snd (processAnswer (Num 6) 14000 ?A)) = 2900"
    by simp_all
  from adaptive_rule [OF b1, where v = Null and now = 17000] b2 b3 b4 b5
  have B: "currentISIValue (snd (processAnswer Null 17000 ?B)) = 3100"
    "consecutiveIncorrect (snd (processAnswer Null 17000 ?B)) = 0"
    by simp_all
  from adaptive_rule [OF b1, where tid = 4 and t = "sessionHistory ?B ! 3" and tp = 13000
      and now = 16000] b4 b5 b6 b7 b8 b9 b10
  have C: "currentISIValue (answerTimeout 4 13000 16000 ?B) = 3100"
    "consecutiveIncorrect (answerTimeout 4 13000 16000 ?B) = 0"
    by simp_all
  from a1 a2 a4 A b1 b2 b4 B C show ?thesis by simp
qed

text \<open>
  C4. The claim is that four consecutive correct resolutions in standard mode take the ISI
  from 3000 to 2600. As amended: in an automatic mode, from an ISI of 3000 with no correct
  streak under way, any run of events in which exactly four trials are scored, all of
  them correct, ends with an ISI of 2900: the fourth correct answer lowers it once, by
  100 ms.
\<close>

theorem four_correct_isi:
  "\<not> isManualMode s \<Longrightarrow> currentISIValue s = 3000 \<Longrightarrow> consecutiveCorrect s = 0 \<Longrightarrow>
   totalAttempts (run evs s) = totalAttempts s + 4 \<Longrightarrow>
   totalCorrect (run evs s) = totalCorrect s + 4 \<Longrightarrow>
   currentISIValue (run evs s) = 2900"
  using four_correct_general [of s 0 evs] by simp

theorem four_correct_isi_witness:
  "\<not> isManualMode fresh_session \<and> isStandardMode fresh_session \<and>
   currentISIValue fresh_session = 3000 \<and>
   consecutiveCorrect fresh_session = 0 \<and>
   totalAttempts (run four_correct_events fresh_session) = totalAttempts fresh_session + 4 \<and>
   totalCorrect (run four_correct_events fresh_session) = totalCorrect fresh_session + 4 \<and>
   currentISIValue (run four_correct_events fresh_session) = 2900"
proof -
  have h1: "\<not> isManualMode fresh_session" by code_simp
  have h1': "isStandardMode fresh_session" by code_simp
  have h2: "currentISIValue fresh_session = 3000" by code_simp
  have h3: "consecutiveCorrect fresh_session = 0" by code_simp
  have h4: "totalAttempts (run four_correct_events fresh_session) = totalAttempts fresh_session + 4"
    by code_simp
  have h5: "totalCorrect (run four_correct_events fresh_session) = totalCorrect fresh_session + 4"
    by code_simp
  from four_correct_isi [OF h1 h2 h3 h4 h5] h1 h1' h2 h3 h4 h5 show ?thesis by simp
qed

text \<open>
  C4, the claim as stated fails: in the example session, in standard mode at 3000 ms, the
  four trials are all answered correctly and the ISI is then 2900, not 2600.
\<close>

theorem four_correct_not_2600:
  "isStandardMode fresh_session \<and> \<not> isManualMode fresh_session \<and>
   currentISIValue fresh_session = 3000 \<and>
   map t_correct (sessionHistory (run four_correct_events fresh_session)) =
     [Some True, Some True, Some True, Some True] \<and>
   totalAttempts (run four_correct_events fresh_session) = 4 \<and>
   currentISIValue (run four_correct_events fresh_session) = 2900 \<and>
   currentISIValue (run four_correct_events fresh_session) \<noteq> 2600"
  by code_simp

section \<open>The bounds of the ISI\<close>

text \<open>
  C5. The claim is that the ISI stays in [500, 5000] from session start on, and that in
  manual mode it stays the selected ISI. \<^verbatim>\<open>startSession\<close> raises the selected ISI to at
  least 500 and puts no upper bound on it. As amended: when the selected ISI is at most
  5000 as the session starts, then at session start and after every event of the session
  (every answer, deadline, presentation, clock tick and the end) the ISI lies in
  [500, 5000], the selected ISI is the one \<^verbatim>\<open>startSession\<close> fixed (the selection, raised to
  500 if it was lower), and in manual mode the ISI equals it.
\<close>

theorem isi_bounds:
  "selectedISI s0 \<le> 5000 \<Longrightarrow>
   500 \<le> currentISIValue (run evs (startSession s0)) \<and>
   currentISIValue (run evs (startSession s0)) \<le> 5000 \<and>
   selectedISI (run evs (startSession s0)) = max 500 (selectedISI s0) \<and>
   (isManualMode s0 \<longrightarrow> currentISIValue (run evs (startSession s0)) = max 500 (selectedISI s0))"
  using run_isi_inv [of "startSession s0" evs]
  by (simp add: startSession_isi)

theorem isi_bounds_witness:
  "selectedISI (isiButton_click 2000 (manualMode_click (initial Map.empty))) \<le> 5000 \<and>
   isManualMode (isiButton_click 2000 (manualMode_click (initial Map.empty))) \<and>
   totalAttempts (run four_correct_events
      (startSession (isiButton_click 2000 (manualMode_click (initial Map.empty))))) = 4 \<and>
   currentISIValue (run four_correct_events
      (startSession (isiButton_click 2000 (manualMode_click (initial Map.empty))))) = 2000"
proof -
  have h: "selectedISI (isiButton_click 2000 (manualMode_click (initial Map.empty))) \<le> 5000"
    by code_simp
  have m: "isManualMode (isiButton_click 2000 (manualMode_click (initial Map.empty)))"
    by code_simp
  have v: "max 500 (selectedISI (isiButton_click 2000 (manualMode_click (initial Map.empty)))) = 2000"
    by code_simp
  have a: "totalAttempts (run four_correct_events
      (startSession (isiButton_click 2000 (manualMode_click (initial Map.empty))))) = 4"
    by code_simp
  from isi_bounds [OF h, of four_correct_events] h m v a show ?thesis by simp
qed

text \<open>
  C5, the claim as stated fails: with a custom-mode record in \<^verbatim>\<open>localStorage\<close> whose ISI
  is 6000, loading the settings, choosing custom mode and starting a session gives an
  active session with an ISI of 6000.
\<close>

theorem isi_above_5000:
  "sessionActive (startSession (customMode_click (loadCustomModeSettings
      (initial [''pasatCustomModeSettings'' \<mapsto>
         StoredMode \<lparr>ms_selectedISI = 6000, ms_sessionDuration = 20\<rparr>])))) \<and>
   currentISIValue (startSession (customMode_click (loadCustomModeSettings
      (initial [''pasatCustomModeSettings'' \<mapsto>
         StoredMode \<lparr>ms_selectedISI = 6000, ms_sessionDuration = 20\<rparr>])))) = 6000 \<and>
   \<not> currentISIValue (startSession (customMode_click (loadCustomModeSettings
      (initial [''pasatCustomModeSettings'' \<mapsto>
         StoredMode \<lparr>ms_selectedISI = 6000, ms_sessionDuration = 20\<rparr>])))) \<le> 5000"
  by code_simp

section \<open>Late resolution of a stale trial\<close>

lemma lateResolve_frame:
  "sessionHistory (lateResolve t i rt s) =
     (sessionHistory s)[i := t\<lparr>t_responseTime := Some rt, t_userAnswer := Null, t_correct := Some False\<rparr>]"
  "answerProcessed (lateResolve t i rt s) = answerProcessed s"
  "processingAnswer (lateResolve t i rt s) = processingAnswer s"
  "correctAnswer (lateResolve t i rt s) = correctAnswer s"
  "answerInput (lateResolve t i rt s) = answerInput s"
  "selectedButton (lateResolve t i rt s) = selectedButton s"
  "currentNumber (lateResolve t i rt s) = currentNumber s"
  by (simp_all add: lateResolve_def lateUpdateISI_def playErrorBeep_def setTimeout_def Let_def)

text \<open>
  The branch of the deadline callback for a trial that is no longer the last entry of
  the history. When the callback gets as far as that branch, that is when the trial is
  still unanswered and neither \<^verbatim>\<open>answerProcessed\<close> nor \<^verbatim>\<open>processingAnswer\<close> is set, the
  stale trial gets its response time, no answer and \<^verbatim>\<open>correct = false\<close>;
  \<^verbatim>\<open>totalAttempts\<close>, the streak counters and the ISI are updated; and the current
  trial's record, \<^verbatim>\<open>answerProcessed\<close>, \<^verbatim>\<open>processingAnswer\<close>, \<^verbatim>\<open>correctAnswer\<close>, the
  answer field and the number-pad selection are unchanged.
\<close>

lemma late_resolution:
  "\<not> answerProcessed s \<Longrightarrow> \<not> processingAnswer s \<Longrightarrow> targetTrial tid s = Some t \<Longrightarrow>
   t_userAnswer t = Null \<Longrightarrow> targetTrialIndex tid s \<noteq> int (length (sessionHistory s)) - 1 \<Longrightarrow>
   nat (targetTrialIndex tid s) < length (sessionHistory s) \<and>
   sessionHistory s ! nat (targetTrialIndex tid s) = t \<and>
   sessionHistory (answerTimeout tid tp now s) =
     (sessionHistory s)[nat (targetTrialIndex tid s) :=
        t\<lparr>t_responseTime := Some (now - tp), t_userAnswer := Null, t_correct := Some False\<rparr>] \<and>
   totalAttempts (answerTimeout tid tp now s) = totalAttempts s + 1 \<and>
   totalCorrect (answerTimeout tid tp now s) = totalCorrect s \<and>
   consecutiveCorrect (answerTimeout tid tp now s) = 0 \<and>
   consecutiveIncorrect (answerTimeout tid tp now s) =
     (if \<not> isManualMode s \<and> 4 \<le> consecutiveIncorrect s + 1 then 0 else consecutiveIncorrect s + 1) \<and>
   currentISIValue (answerTimeout tid tp now s) =
     (if \<not> isManualMode s \<and> 4 \<le> consecutiveIncorrect s + 1
      then min 5000 (currentISIValue s + 100) else currentISIValue s) \<and>
   last (sessionHistory (answerTimeout tid tp now s)) = last (sessionHistory s) \<and>
   answerProcessed (answerTimeout tid tp now s) = answerProcessed s \<and>
   processingAnswer (answerTimeout tid tp now s) = processingAnswer s \<and>
   correctAnswer (answerTimeout tid tp now s) = correctAnswer s \<and>
   answerInput (answerTimeout tid tp now s) = answerInput s \<and>
   selectedButton (answerTimeout tid tp now s) = selectedButton s"
proof -
  assume u: "\<not> answerProcessed s" "\<not> processingAnswer s"
    and f: "targetTrial tid s = Some t" and n: "t_userAnswer t = Null"
    and st: "targetTrialIndex tid s \<noteq> int (length (sessionHistory s)) - 1"
  let ?i = "nat (targetTrialIndex tid s)"
  have eq: "answerTimeout tid tp now s = lateResolve t ?i (now - tp) s"
    using u f n st by (rule answerTimeout_stale)
  have idx: "0 \<le> targetTrialIndex tid s" "targetTrialIndex tid s < int (length (sessionHistory s))"
    "sessionHistory s ! ?i = t"
    using find_findIndex [of "\<lambda>t. t_trialId t = tid" "sessionHistory s" t] f
    by (simp_all add: targetTrial_def targetTrialIndex_def)
  then have lt: "?i < length (sessionHistory s)" and ne: "?i \<noteq> length (sessionHistory s) - 1"
    using st by linarith+
  have ls: "late_scored s (lateResolve t ?i (now - tp) s)"
    by (rule lateResolve_late_scored)
  have l: "last ((sessionHistory s)[?i :=
        t\<lparr>t_responseTime := Some (now - tp), t_userAnswer := Null, t_correct := Some False\<rparr>]) =
      last (sessionHistory s)"
  proof -
    from lt have "sessionHistory s \<noteq> []" by auto
    with ne show ?thesis by (simp add: last_list_update)
  qed
  show ?thesis
    unfolding eq using lt idx(3) l ls
    by (simp add: lateResolve_frame late_scored_def)
qed

text \<open>
  In the session without answers, the deadline of the stale fourth trial scores it and
  leaves the open fifth trial as it is.
\<close>

lemma late_resolution_example:
  "\<not> answerProcessed (run no_answer_events fresh_session) \<and>
   \<not> processingAnswer (run no_answer_events fresh_session) \<and>
   t_trialId (sessionHistory (run no_answer_events fresh_session) ! 3) = 4 \<and>
   length (sessionHistory (run no_answer_events fresh_session)) = 5 \<and>
   totalAttempts (run no_answer_events fresh_session) = 3 \<and>
   t_correct (sessionHistory (answerTimeout 4 13000 16000 (run no_answer_events fresh_session)) ! 3)
     = Some False \<and>
   t_userAnswer (sessionHistory (answerTimeout 4 13000 16000 (run no_answer_events fresh_session)) ! 3)
     = Null \<and>
   totalAttempts (answerTimeout 4 13000 16000 (run no_answer_events fresh_session)) = 4 \<and>
   last (sessionHistory (answerTimeout 4 13000 16000 (run no_answer_events fresh_session))) =
     last (sessionHistory (run no_answer_events fresh_session))"
proof -
  let ?B = "run no_answer_events fresh_session"
  have b6: "\<not> answerProcessed ?B" by code_simp
  have b7: "\<not> processingAnswer ?B" by code_simp
  have b8: "targetTrial 4 ?B = Some (sessionHistory ?B ! 3)" by code_simp
  have b9: "t_userAnswer (sessionHistory ?B ! 3) = Null" by code_simp
  have b10: "targetTrialIndex 4 ?B \<noteq> int (length (sessionHistory ?B)) - 1" by code_simp
  have c1: "t_trialId (sessionHistory ?B ! 3) = 4" by code_simp
  have c2: "length (sessionHistory ?B) = 5" by code_simp
  have c3: "totalAttempts ?B = 3" by code_simp
  have c4: "nat (targetTrialIndex 4 ?B) = 3" by code_simp
  from late_resolution [OF b6 b7 b8 b9 b10, of 13000 16000] b6 b7 c1 c2 c3 c4
  show ?thesis
    apply -
    apply (elim conjE)
    apply simp
    done
qed

text \<open>
  C2. Whenever the deadline fires for a trial that is no longer the last entry of the
  history, that trial is to be resolved as incorrect with no answer, and the counters
  and the difficulty updated. The callback, though, starts with the test
  \<^verbatim>\<open>!answerProcessed && !processingAnswer\<close>, and its own comments say of
  \<^verbatim>\<open>answerProcessed\<close> that "it's for the current trial, not this old one". In the
  session below the digits 4, 7, 2 are presented, the first trial is left unanswered,
  and the answer 9 to the second trial is typed right after the third digit. The
  deadline of the first trial (handle 5) is still pending then; when it fires,
  \<^verbatim>\<open>answerProcessed\<close> is set by the answer to the second trial, the callback returns at
  its first test, and the stale first trial keeps \<^verbatim>\<open>correct = null\<close>: it is not
  resolved, \<^verbatim>\<open>totalAttempts\<close> stays at 1 and the incorrect streak at 0.
\<close>

theorem stale_deadline_skipped:
  "map_of (pending (run newer_claimed_events fresh_session)) 5 = Some (AnswerTimeout 1 4000) \<and>
   length (sessionHistory (run newer_claimed_events fresh_session)) = 2 \<and>
   targetTrialIndex 1 (run newer_claimed_events fresh_session) = 0 \<and>
   t_correct (sessionHistory (run newer_claimed_events fresh_session) ! 0) = None \<and>
   totalAttempts (run newer_claimed_events fresh_session) = 1 \<and>
   answerProcessed (run newer_claimed_events fresh_session) \<and>
   t_correct (sessionHistory (step (Fire 5 7000 0 7000) (run newer_claimed_events fresh_session)) ! 0)
     = None \<and>
   t_userAnswer (sessionHistory (step (Fire 5 7000 0 7000) (run newer_claimed_events fresh_session)) ! 0)
     = Null \<and>
   totalAttempts (step (Fire 5 7000 0 7000) (run newer_claimed_events fresh_session)) = 1 \<and>
   consecutiveIncorrect (step (Fire 5 7000 0 7000) (run newer_claimed_events fresh_session)) = 0"
  by code_simp

section \<open>Exactly-once resolution\<close>

lemma processAnswer_keeps:
  "answerProcessed (snd (processAnswer v now s)) = answerProcessed s"
  "correctAnswer (snd (processAnswer v now s)) = correctAnswer s"
  "processingAnswer (snd (processAnswer v now s)) = processingAnswer s"
  "audioPlayInProgress (snd (processAnswer v now s)) = audioPlayInProgress s"
  "useNumberPad (snd (processAnswer v now s)) = useNumberPad s"
  "length (sessionHistory (snd (processAnswer v now s))) = length (sessionHistory s)"
  by (auto simp add: processAnswer_def recordAnswer_def updateCounters_def updateISI_def
        clearInput_def playErrorBeep_def setTimeout_def Let_def)

lemma processAnswer_history:
  "canResolve s \<Longrightarrow>
   sessionHistory (snd (processAnswer v now s)) =
     (sessionHistory s)[length (sessionHistory s) - 1 :=
        (last (sessionHistory s))\<lparr>
           t_responseTime := Some (now - (nextPresentationTime s - currentISIValue s)),
           t_userAnswer := v,
           t_correct := Some (isCorrectFor v (last (sessionHistory s)))\<rparr>]"
  by (simp add: processAnswer_def canResolve_def recordAnswer_def updateCounters_def updateISI_def
        clearInput_def playErrorBeep_def setTimeout_def Let_def)

lemma processAnswer_last:
  "canResolve s \<Longrightarrow>
   t_correct (last (sessionHistory (snd (processAnswer v now s)))) =
     Some (isCorrectFor v (last (sessionHistory s))) \<and>
   t_userAnswer (last (sessionHistory (snd (processAnswer v now s)))) = v"
  by (simp add: processAnswer_history last_list_update canResolve_def)

lemma processAnswer_attempts:
  "canResolve s \<Longrightarrow> totalAttempts (snd (processAnswer v now s)) = totalAttempts s + 1"
  using processAnswer_scored [of s v now] by (simp add: scored_def)

lemma canProcessButtonClick_iff:
  "canProcessButtonClick s =
     (\<not> processingAnswer s \<and> correctAnswer s \<noteq> Null \<and> \<not> audioPlayInProgress s \<and>
      \<not> answerProcessed s)"
  by (simp add: canProcessButtonClick_def)

lemma processImmediately_open:
  "canResolve s \<Longrightarrow>
   fst (processImmediately v now s) \<and>
   answerProcessed (snd (processImmediately v now s)) \<and>
   totalAttempts (snd (processImmediately v now s)) = totalAttempts s + 1 \<and>
   t_correct (last (sessionHistory (snd (processImmediately v now s)))) =
     Some (isCorrectFor v (last (sessionHistory s))) \<and>
   length (sessionHistory (snd (processImmediately v now s))) = length (sessionHistory s)"
  using processAnswer_last [of "s\<lparr>answerProcessed := True\<rparr>" v now]
    processAnswer_attempts [of "s\<lparr>answerProcessed := True\<rparr>" v now]
  by (simp add: processImmediately_def Let_def processAnswer_fst processAnswer_keeps)

lemma clearInputAfterTimeout_keeps [simp]:
  "answerProcessed (clearInputAfterTimeout s) = answerProcessed s"
  "totalAttempts (clearInputAfterTimeout s) = totalAttempts s"
  "sessionHistory (clearInputAfterTimeout s) = sessionHistory s"
  by (simp_all add: clearInputAfterTimeout_def)

lemma timeoutProcess_open:
  "canResolve s \<Longrightarrow>
   answerProcessed (timeoutProcess now s) \<and>
   totalAttempts (timeoutProcess now s) = totalAttempts s + 1 \<and>
   t_correct (last (sessionHistory (timeoutProcess now s))) \<noteq> None \<and>
   length (sessionHistory (timeoutProcess now s)) = length (sessionHistory s)"
  using processAnswer_last [of "s\<lparr>answerProcessed := True\<rparr>" _ now]
    processAnswer_attempts [of "s\<lparr>answerProcessed := True\<rparr>" _ now]
  by (simp add: timeoutProcess_def Let_def processAnswer_fst processAnswer_keeps)

lemma find_last_distinct:
  "xs \<noteq> [] \<Longrightarrow> distinct (map f xs) \<Longrightarrow>
   find (\<lambda>t. f t = f (last xs)) xs = Some (last xs) \<and>
   findIndex (\<lambda>t. f t = f (last xs)) xs = int (length xs) - 1"
proof (induction xs)
  case Nil
  then show ?case by simp
next
  case (Cons x xs)
  show ?case
  proof (cases "xs = []")
    case True
    then show ?thesis by simp
  next
    case False
    then have "last xs \<in> set xs" by simp
    then have "f (last xs) \<in> f ` set xs" by simp
    with Cons.prems have ne: "f x \<noteq> f (last xs)" by auto
    from Cons.prems have "distinct (map f xs)" by simp
    from Cons.IH [OF False this] False ne show ?thesis by (simp add: Let_def)
  qed
qed

lemma openTrialFor_canResolve: "openTrialFor tid c s \<Longrightarrow> canResolve s"
  by (simp add: openTrialFor_def canResolve_def js_seq_def)

lemma openTrialFor_upd [simp]:
  "openTrialFor tid c (s\<lparr>selectedButton := x20\<rparr>) = openTrialFor tid c s"
  "openTrialFor tid c (s\<lparr>answerInput := x19\<rparr>) = openTrialFor tid c s"
  by (simp_all add: openTrialFor_def)

lemma answerTimeout_open:
  "openTrialFor tid c s \<Longrightarrow> answerTimeout tid tp now s = timeoutProcess now s"
  using find_last_distinct [of "sessionHistory s" t_trialId]
  by (auto simp add: openTrialFor_def answerTimeout_def Let_def)

lemma answerTimeout_claimed: "answerProcessed s \<Longrightarrow> answerTimeout tid tp now s = s"
  by (simp add: answerTimeout_def)

lemma input_claimed:
  "answerProcessed s \<Longrightarrow> submits e c s0 \<Longrightarrow>
   totalAttempts (step e s) = totalAttempts s \<and> sessionHistory (step e s) = sessionHistory s"
  by (cases e)
     (simp_all add: submits_def handleButtonInteraction_def answerInput_input_def
        answerInput_keyup_Enter_def canProcessButtonClick_iff)

lemma isCorrectFor_same: "t_correctAnswer t = Num c \<Longrightarrow> isCorrectFor (Num c) t"
  by (simp add: isCorrectFor_def js_isNaN_def)

lemma input_open:
  "openTrialFor tid c s \<Longrightarrow> submits e c s \<Longrightarrow>
   (openTrialFor tid c (step e s) \<and> totalAttempts (step e s) = totalAttempts s \<and>
    sessionHistory (step e s) = sessionHistory s) \<or>
   (answerProcessed (step e s) \<and> totalAttempts (step e s) = totalAttempts s + 1 \<and>
    t_correct (last (sessionHistory (step e s))) = Some True \<and>
    length (sessionHistory (step e s)) = length (sessionHistory s))"
proof -
  assume o: "openTrialFor tid c s" and sub: "submits e c s"
  have cr: "canResolve s" using o by (rule openTrialFor_canResolve)
  have ca: "correctAnswer s = Num c" and tc: "t_correctAnswer (last (sessionHistory s)) = Num c"
    using o by (simp_all add: openTrialFor_def)
  have ic: "isCorrectFor (Num c) (last (sessionHistory s))"
    using tc by (rule isCorrectFor_same)
  show ?thesis
  proof (cases e)
    case (NumberpadPress v n)
    with sub have v: "v = Num c" by (simp add: submits_def)
    show ?thesis
    proof (cases "canProcessButtonClick s")
      case True
      have cr': "canResolve (s\<lparr>selectedButton := Some (Num c)\<rparr>)" using cr by simp
      from processImmediately_open [OF cr', of "Num c" n] True ca ic
      show ?thesis
        by (simp add: NumberpadPress v handleButtonInteraction_def Let_def
            shouldProcessAnswerImmediately_def canProcessAnswerImmediately_def
            canProcessButtonClick_iff js_seq_def)
    next
      case False
      with o show ?thesis by (simp add: NumberpadPress handleButtonInteraction_def)
    qed
  next
    case (InputText tx n)
    with sub have t: "tx = Text (Num c)" by (simp add: submits_def)
    show ?thesis
    proof (cases "canProcessButtonClick s")
      case True
      have cr': "canResolve (s\<lparr>answerInput := Text (Num c)\<rparr>)" using cr by simp
      from processImmediately_open [OF cr', of "Num c" n] True ca ic
      show ?thesis
        by (simp add: InputText t answerInput_input_def canProcessButtonClick_iff js_seq_def
            js_isNaN_def)
    next
      case False
      with o show ?thesis
        by (simp add: InputText answerInput_input_def canProcessButtonClick_iff)
    qed
  next
    case (EnterKey n)
    with sub have t: "answerInput s = Text (Num c)" by (simp add: submits_def)
    show ?thesis
    proof (cases "canProcessButtonClick s")
      case True
      from processImmediately_open [OF cr, of "Num c" n] True ca ic t o
      show ?thesis
        by (simp add: EnterKey answerInput_keyup_Enter_def canProcessButtonClick_iff js_seq_def
            js_isNaN_def openTrialFor_def)
    next
      case False
      with o show ?thesis
        by (simp add: EnterKey answerInput_keyup_Enter_def)
    qed
  next
    case (Fire i n d a)
    with sub show ?thesis by (simp add: submits_def)
  next
    case (EndTraining n)
    with sub show ?thesis by (simp add: submits_def)
  qed
qed

text \<open>
  Every trial starts out that way: a presentation that creates a trial, in a history
  whose identifiers are distinct and at most \<^verbatim>\<open>currentTrialId\<close>, leaves it as the
  current open trial.
\<close>

lemma presentNumber_flags:
  "int (length (numberSequence s)) + 1 \<ge> nbackValue s + 1 \<Longrightarrow>
   correctAnswer (presentNumber digit s) =
     calculateNbackAnswer digit (numberSequence s @ [digit]) (nbackValue s)"
  "correctAnswer (presentNumber digit s) \<noteq> Null \<Longrightarrow>
   \<not> answerProcessed (presentNumber digit s) \<and> \<not> processingAnswer (presentNumber digit s)"
  by (simp_all add: presentNumber_def openTrial_def Let_def split: if_splits)

lemma presentNumber_opens:
  "1 \<le> nbackValue s \<Longrightarrow> nbackValue s \<le> int (length (numberSequence s)) \<Longrightarrow>
   distinct (map t_trialId (sessionHistory s)) \<Longrightarrow>
   (\<forall>t \<in> set (sessionHistory s). t_trialId t \<le> currentTrialId s) \<Longrightarrow>
   openTrialFor (currentTrialId s + 1)
     (digit + numberSequence s ! (length (numberSequence s) - nat (nbackValue s)))
     (presentNumber digit s)"
proof -
  assume a: "1 \<le> nbackValue s" and b: "nbackValue s \<le> int (length (numberSequence s))"
    and d: "distinct (map t_trialId (sessionHistory s))"
    and le: "\<forall>t \<in> set (sessionHistory s). t_trialId t \<le> currentTrialId s"
  let ?n = "length (numberSequence s)"
  let ?seq = "numberSequence s @ [digit]"
  let ?c = "digit + numberSequence s ! (?n - nat (nbackValue s))"
  have j: "?n - nat (nbackValue s) < ?n" using a b by linarith
  have e: "?seq ! (length ?seq - 1 - nat (nbackValue s)) = numberSequence s ! (?n - nat (nbackValue s))"
    using j by (simp add: nth_append)
  have ca: "calculateNbackAnswer digit ?seq (nbackValue s) = Num ?c"
    using a b e calculateNbackAnswer_deep [of "nbackValue s" ?seq digit] by simp
  have c1: "correctAnswer (presentNumber digit s) = Num ?c"
    using b ca by (simp add: presentNumber_flags(1))
  then have fl: "\<not> answerProcessed (presentNumber digit s)" "\<not> processingAnswer (presentNumber digit s)"
    using presentNumber_flags(2) [of digit s] by simp_all
  have h: "sessionHistory (presentNumber digit s) =
      sessionHistory (openTrial digit
        (s\<lparr>forcePresentNextNumber := False, currentNumber := Num digit,
           numberSequence := ?seq\<rparr>))"
    using b by (simp add: presentNumber_history)
  have new: "currentTrialId s + 1 \<notin> t_trialId ` set (sessionHistory s)"
    using le by fastforce
  show ?thesis
    unfolding openTrialFor_def h openTrial_history
    using ca c1 fl d new by simp
qed

text \<open>
  As long as a trial is the last entry of the history (its deadline finds it so when
  the next presentation has not taken place, as after the end of the session): let it
  be open, with correct answer \<open>c\<close>, and let both the immediate path (the value \<open>c\<close>
  pressed, typed, or confirmed with Enter) and the deadline callback of that trial run,
  in either order. Then \<^verbatim>\<open>totalAttempts\<close> has grown by exactly one, the trial is scored
  (\<^verbatim>\<open>correct\<close> is no longer \<^verbatim>\<open>null\<close>), and the history has the same length.
\<close>

lemma exactly_once_while_last:
  "openTrialFor tid c s \<Longrightarrow> submits e c s \<Longrightarrow>
   totalAttempts (answerTimeout tid tp m (step e s)) = totalAttempts s + 1 \<and>
   t_correct (last (sessionHistory (answerTimeout tid tp m (step e s)))) \<noteq> None \<and>
   length (sessionHistory (answerTimeout tid tp m (step e s))) = length (sessionHistory s) \<and>
   totalAttempts (step e (answerTimeout tid tp m s)) = totalAttempts s + 1 \<and>
   t_correct (last (sessionHistory (step e (answerTimeout tid tp m s)))) \<noteq> None \<and>
   length (sessionHistory (step e (answerTimeout tid tp m s))) = length (sessionHistory s)"
proof -
  assume o: "openTrialFor tid c s" and sub: "submits e c s"
  have cr: "canResolve s" using o by (rule openTrialFor_canResolve)
  have first: "totalAttempts (answerTimeout tid tp m (step e s)) = totalAttempts s + 1 \<and>
   t_correct (last (sessionHistory (answerTimeout tid tp m (step e s)))) \<noteq> None \<and>
   length (sessionHistory (answerTimeout tid tp m (step e s))) = length (sessionHistory s)"
    using input_open [OF o sub]
  proof
    assume a: "openTrialFor tid c (step e s) \<and> totalAttempts (step e s) = totalAttempts s \<and>
      sessionHistory (step e s) = sessionHistory s"
    then have o': "openTrialFor tid c (step e s)" by simp
    from timeoutProcess_open [OF openTrialFor_canResolve [OF o'], of m] a
    show ?thesis by (simp add: answerTimeout_open [OF o'])
  next
    assume a: "answerProcessed (step e s) \<and> totalAttempts (step e s) = totalAttempts s + 1 \<and>
      t_correct (last (sessionHistory (step e s))) = Some True \<and>
      length (sessionHistory (step e s)) = length (sessionHistory s)"
    then show ?thesis by (simp add: answerTimeout_claimed)
  qed
  have d: "answerProcessed (timeoutProcess m s)"
    "totalAttempts (timeoutProcess m s) = totalAttempts s + 1"
    "t_correct (last (sessionHistory (timeoutProcess m s))) \<noteq> None"
    "length (sessionHistory (timeoutProcess m s)) = length (sessionHistory s)"
    using timeoutProcess_open [OF cr, of m] by simp_all
  have second: "totalAttempts (step e (answerTimeout tid tp m s)) = totalAttempts s + 1 \<and>
   t_correct (last (sessionHistory (step e (answerTimeout tid tp m s)))) \<noteq> None \<and>
   length (sessionHistory (step e (answerTimeout tid tp m s))) = length (sessionHistory s)"
    using input_claimed [OF d(1) sub] d by (simp add: answerTimeout_open [OF o])
  from first second show ?thesis by simp
qed


section \<open>An answered trial is final\<close>

lemma history_frame [simp]:
  "sessionHistory (snd (setTimeout cb s)) = sessionHistory s"
  "sessionHistory (clearTimeout i s) = sessionHistory s"
  "sessionHistory (clearCurrentInterval s) = sessionHistory s"
  "sessionHistory (clearTrainingTimer s) = sessionHistory s"
  "sessionHistory (stopAllAudio s) = sessionHistory s"
  "sessionHistory (playErrorBeep s) = sessionHistory s"
  "sessionHistory (playErrorBeep_deferred s) = sessionHistory s"
  "sessionHistory (saveSessions s) = sessionHistory s"
  by (simp_all add: setTimeout_def clearTimeout_def clearCurrentInterval_def clearTrainingTimer_def
        stopAllAudio_def playErrorBeep_def playErrorBeep_deferred_def saveSessions_def setItem_def
        split: option.split)

lemma history_scheduleNext [simp]: "sessionHistory (scheduleNext now s) = sessionHistory s"
  by (simp add: scheduleNext_def Let_def)

lemma history_afterSpeak [simp]: "sessionHistory (afterSpeak now s) = sessionHistory s"
  by (simp add: afterSpeak_def Let_def)

lemma history_speakNumber_then [simp]:
  "sessionHistory (speakNumber_then after s) = sessionHistory s"
  by (simp add: speakNumber_then_def)

lemma history_endSession [simp]: "sessionHistory (endSession now s) = sessionHistory s"
  by (simp add: endSession_def addSessionToHistory_def Let_def)

lemma history_updateTimer [simp]: "sessionHistory (updateTimer now s) = sessionHistory s"
  by (simp add: updateTimer_def Let_def)

lemma hist_step_refl [simp]: "hist_step h h"
  by (simp add: hist_step_def)

lemma hist_step_append [simp]: "hist_step h (h @ [t])"
  by (simp add: hist_step_def)

lemma hist_step_update:
  "k < length h \<Longrightarrow> t_userAnswer (h ! k) = Null \<Longrightarrow> hist_step h (h[k := x])"
  by (auto simp add: hist_step_def)

lemma history_presentNumber:
  "hist_step (sessionHistory s) (sessionHistory (presentNumber digit s))"
  by (simp add: presentNumber_def openTrial_def Let_def)

lemma history_presentNextNumber:
  "hist_step (sessionHistory s) (sessionHistory (presentNextNumber digit currentTime after s))"
  using history_presentNumber [of "clearCurrentInterval (s\<lparr>nextNumberScheduled := True\<rparr>)" digit]
  by (simp add: presentNextNumber_def Let_def)

lemma history_processAnswer:
  "hist_step (sessionHistory s) (sessionHistory (snd (processAnswer v now s)))"
proof (cases "canResolve s")
  case True
  then have "sessionHistory s \<noteq> []" "t_userAnswer (last (sessionHistory s)) = Null"
    by (simp_all add: canResolve_def)
  then have "length (sessionHistory s) - 1 < length (sessionHistory s)"
    "t_userAnswer (sessionHistory s ! (length (sessionHistory s) - 1)) = Null"
    by (simp_all add: last_conv_nth)
  then show ?thesis
    unfolding processAnswer_history [OF True] by (rule hist_step_update)
next
  case False
  then show ?thesis by (simp add: processAnswer_rejected)
qed

lemma history_processImmediately:
  "hist_step (sessionHistory s) (sessionHistory (snd (processImmediately v now s)))"
  using history_processAnswer [of "s\<lparr>answerProcessed := True\<rparr>" v now]
  by (simp add: processImmediately_def Let_def)

lemma history_timeoutProcess:
  "hist_step (sessionHistory s) (sessionHistory (timeoutProcess now s))"
  using history_processAnswer [of "s\<lparr>answerProcessed := True\<rparr>" _ now]
  by (simp add: timeoutProcess_def Let_def)

lemma history_answerTimeout:
  "hist_step (sessionHistory s) (sessionHistory (answerTimeout tid tp now s))"
proof (cases "find (\<lambda>t. t_trialId t = tid) (sessionHistory s)")
  case None
  then show ?thesis by (simp add: answerTimeout_def)
next
  case (Some t)
  have i: "nat (findIndex (\<lambda>t. t_trialId t = tid) (sessionHistory s)) < length (sessionHistory s)"
    using find_findIndex [OF Some] by linarith
  have n: "sessionHistory s ! nat (findIndex (\<lambda>t. t_trialId t = tid) (sessionHistory s)) = t"
    using find_findIndex [OF Some] by simp
  show ?thesis
    using Some history_timeoutProcess [of s now] hist_step_update [OF i] n
    by (simp add: answerTimeout_def Let_def lateResolve_frame)
qed

lemma history_handlers:
  "hist_step (sessionHistory s) (sessionHistory (handleButtonInteraction v now s))"
  "hist_step (sessionHistory s) (sessionHistory (answerInput_input now s))"
  "hist_step (sessionHistory s) (sessionHistory (answerInput_keyup_Enter now s))"
  using history_processImmediately [of "s\<lparr>selectedButton := Some v\<rparr>" v now]
    history_processImmediately [of s _ now]
  by (simp_all add: handleButtonInteraction_def answerInput_input_def answerInput_keyup_Enter_def
        Let_def split: field_text.split)

lemma history_fire: "hist_step (sessionHistory s) (sessionHistory (fire i now digit after s))"
proof (cases "map_of (pending s) i")
  case None
  then show ?thesis by (simp add: fire_def)
next
  case (Some cb)
  then show ?thesis
    using history_presentNextNumber [of "clearTimeout i s" digit now after]
      history_answerTimeout [of "clearTimeout i s" _ _ now]
    by (cases cb) (simp_all add: fire_def)
qed

lemma history_step: "hist_step (sessionHistory s) (sessionHistory (step e s))"
  using history_handlers(2) [of "s\<lparr>answerInput := _\<rparr>"]
  by (cases e) (simp_all add: history_fire history_handlers)

lemma hist_step_keeps:
  "hist_step h h' \<Longrightarrow> i < length h \<Longrightarrow> t_userAnswer (h ! i) \<noteq> Null \<Longrightarrow>
   i < length h' \<and> h' ! i = h ! i"
  by (auto simp add: hist_step_def nth_append nth_list_update)

lemma run_keeps_answered:
  "i < length (sessionHistory s) \<Longrightarrow> t_userAnswer (sessionHistory s ! i) \<noteq> Null \<Longrightarrow>
   i < length (sessionHistory (run evs s)) \<and> sessionHistory (run evs s) ! i = sessionHistory s ! i"
proof (induction evs arbitrary: s)
  case Nil
  then show ?case by simp
next
  case (Cons e evs)
  from hist_step_keeps [OF history_step Cons.prems, of e]
  have 1: "i < length (sessionHistory (step e s))"
    and 2: "sessionHistory (step e s) ! i = sessionHistory s ! i" by simp_all
  from Cons.prems(2) 2 have 3: "t_userAnswer (sessionHistory (step e s) ! i) \<noteq> Null" by simp
  from Cons.IH [OF 1 3] 2 show ?case by simp
qed

lemma processAnswer_answered:
  "sessionHistory s \<noteq> [] \<Longrightarrow> t_userAnswer (last (sessionHistory s)) \<noteq> Null \<Longrightarrow>
   processAnswer v now s = (False, s)"
proof -
  assume "sessionHistory s \<noteq> []" and "t_userAnswer (last (sessionHistory s)) \<noteq> Null"
  then have n: "\<not> canResolve s" by (simp add: canResolve_def)
  have "fst (processAnswer v now s) = False" using n by (simp add: processAnswer_fst)
  moreover have "snd (processAnswer v now s) = s" using n by (rule processAnswer_rejected)
  ultimately show ?thesis by (simp add: prod_eq_iff)
qed

text \<open>
  C7. Once a trial's \<^verbatim>\<open>userAnswer\<close> holds a value (it is no longer \<^verbatim>\<open>null\<close>):
  \<^verbatim>\<open>processAnswer\<close> called while that trial is the current one returns \<^verbatim>\<open>false\<close> and
  leaves the whole state, counters and trials included, as it was; the deadline callback
  of that trial returns without changing the state; and no run of session events changes
  the trial's record, so the answer is never overwritten. (A resolution with no answer
  leaves \<^verbatim>\<open>userAnswer\<close> at \<^verbatim>\<open>null\<close> and is not covered: the code recognises an answered
  trial by \<^verbatim>\<open>userAnswer !== null\<close>.)
\<close>

theorem answered_trial_is_final:
  "(sessionHistory s \<noteq> [] \<and> t_userAnswer (last (sessionHistory s)) \<noteq> Null \<longrightarrow>
      processAnswer v now s = (False, s)) \<and>
   (targetTrial tid s = Some t \<and> t_userAnswer t \<noteq> Null \<longrightarrow> answerTimeout tid tp now s = s) \<and>
   (i < length (sessionHistory s) \<and> t_userAnswer (sessionHistory s ! i) \<noteq> Null \<longrightarrow>
      i < length (sessionHistory (run evs s)) \<and>
      sessionHistory (run evs s) ! i = sessionHistory s ! i)"
  using run_keeps_answered [of i s evs]
  by (simp add: processAnswer_answered answerTimeout_def targetTrial_def)

text \<open>
  In the example session, after 11 is recorded for the first trial, a second
  \<^verbatim>\<open>processAnswer\<close> and the trial's deadline change no counter, and the rest of the session
  leaves the recorded answer in place.
\<close>

theorem answered_trial_is_final_witness:
  "t_userAnswer (last (sessionHistory (run (take 3 four_correct_events) fresh_session))) = Num 11 \<and>
   totalAttempts (run (take 3 four_correct_events) fresh_session) = 1 \<and>
   \<not> fst (processAnswer (Num 5) 7000 (run (take 3 four_correct_events) fresh_session)) \<and>
   totalAttempts (snd (processAnswer (Num 5) 7000 (run (take 3 four_correct_events) fresh_session)))
     = 1 \<and>
   totalAttempts (answerTimeout 1 4000 7000 (run (take 3 four_correct_events) fresh_session)) = 1 \<and>
   t_userAnswer (sessionHistory (run (drop 3 four_correct_events)
      (run (take 3 four_correct_events) fresh_session)) ! 0) = Num 11"
proof -
  let ?S = "run (take 3 four_correct_events) fresh_session"
  have h1: "sessionHistory ?S \<noteq> []" by code_simp
  have h2: "t_userAnswer (last (sessionHistory ?S)) = Num 11" by code_simp
  have h3: "targetTrial 1 ?S = Some (last (sessionHistory ?S))" by code_simp
  have h4: "0 < length (sessionHistory ?S)" by code_simp
  have h5: "t_userAnswer (sessionHistory ?S ! 0) = Num 11" by code_simp
  have h6: "totalAttempts ?S = 1" by code_simp
  from answered_trial_is_final [where s = ?S and v = "Num 5" and now = 7000 and tid = 1
      and t = "last (sessionHistory ?S)" and tp = 4000 and i = 0
      and evs = "drop 3 four_correct_events"] h1 h2 h3 h4 h5 h6
  show ?thesis by simp
qed

section \<open>The trials of a session\<close>

text \<open>
  The events other than a presentation leave the digits, the depth and, in every trial,
  the current number and the correct answer as they are.
\<close>

lemma same_trials_refl [simp]: "same_trials s s"
  by (simp add: same_trials_def)

lemma same_trials_trans: "same_trials s s' \<Longrightarrow> same_trials s' s'' \<Longrightarrow> same_trials s s''"
  by (simp add: same_trials_def)


lemma same_trials_upd [simp]:
  "same_trials s (s'\<lparr>answerProcessed := x1\<rparr>) = same_trials s s'"
  "same_trials s (s'\<lparr>selectedButton := x2\<rparr>) = same_trials s s'"
  "same_trials s (s'\<lparr>answerInput := x3\<rparr>) = same_trials s s'"
  "same_trials s (s'\<lparr>audioPlayInProgress := x4\<rparr>) = same_trials s s'"
  "same_trials s (s'\<lparr>remainingTime := x5\<rparr>) = same_trials s s'"
  "same_trials (s\<lparr>answerProcessed := x1\<rparr>) s' = same_trials s s'"
  "same_trials (s\<lparr>selectedButton := x2\<rparr>) s' = same_trials s s'"
  "same_trials (s\<lparr>answerInput := x3\<rparr>) s' = same_trials s s'"
  "same_trials (s\<lparr>audioPlayInProgress := x4\<rparr>) s' = same_trials s s'"
  "same_trials (s\<lparr>remainingTime := x5\<rparr>) s' = same_trials s s'"
  by (simp_all add: same_trials_def)

lemma same_trials_timers [simp]:
  "same_trials s (snd (setTimeout cb s')) = same_trials s s'"
  "same_trials s (clearTimeout i s') = same_trials s s'"
  "same_trials (clearTimeout i s) s' = same_trials s s'"
  "same_trials s (clearCurrentInterval s') = same_trials s s'"
  "same_trials s (clearTrainingTimer s') = same_trials s s'"
  "same_trials s (stopAllAudio s') = same_trials s s'"
  "same_trials s (playErrorBeep s') = same_trials s s'"
  "same_trials s (playErrorBeep_deferred s') = same_trials s s'"
  "same_trials s (clearInputAfterTimeout s') = same_trials s s'"
  "same_trials s (saveSessions s') = same_trials s s'"
  by (simp_all add: same_trials_def setTimeout_def clearTimeout_def clearCurrentInterval_def
        clearTrainingTimer_def stopAllAudio_def playErrorBeep_def playErrorBeep_deferred_def
        clearInputAfterTimeout_def saveSessions_def setItem_def split: option.split)









lemma same_trials_addSessionToHistory [simp]:
  "same_trials s (addSessionToHistory now s') = same_trials s s'"
proof -
  have "same_trials s (s'\<lparr>allSessions := x\<rparr>) = same_trials s s'" for x
    by (simp add: same_trials_def)
  then show ?thesis by (simp add: addSessionToHistory_def Let_def)
qed



lemma same_trials_scheduleNext [simp]: "same_trials s (scheduleNext now s') = same_trials s s'"
  by (simp add: scheduleNext_def Let_def same_trials_def setTimeout_def)

lemma same_trials_afterSpeak [simp]: "same_trials s (afterSpeak now s') = same_trials s s'"
  by (simp add: afterSpeak_def Let_def)









text \<open>
  \<^verbatim>\<open>startSession\<close> empties the sequence and the history and clamps the depth to
  1..10.
\<close>

lemma readNbackInput_frame:
  "sessionHistory (readNbackInput s) = sessionHistory s"
  "numberSequence (readNbackInput s) = numberSequence s"
  by (simp_all add: readNbackInput_def Let_def split: option.split)

lemma resetSessionVariables_frame:
  "sessionHistory (resetSessionVariables s) = []"
  "numberSequence (resetSessionVariables s) = []"
  "nbackInput s = Some v \<Longrightarrow>
   nbackValue (resetSessionVariables s) =
     max 1 (min 10 (case v of Num k \<Rightarrow> (if k = 0 then 1 else k) | _ \<Rightarrow> 1))"
  by (simp_all add: resetSessionVariables_def readNbackInput_def Let_def split: option.split)

lemma startTimers_frame:
  "sessionHistory (startTimers s) = sessionHistory s"
  "numberSequence (startTimers s) = numberSequence s"
  "nbackValue (startTimers s) = nbackValue s"
  by (simp_all add: startTimers_def setTimeout_def Let_def)


lemma startSession_nback:
  "nbackInput s = Some v \<Longrightarrow>
   1 \<le> nbackValue (startSession s) \<and> nbackValue (startSession s) \<le> 10"
proof -
  assume v: "nbackInput s = Some v"
  let ?s1 = "stopAllAudio s"
  let ?s2 = "if useNumberPad ?s1 then ?s1\<lparr>selectedButton := None\<rparr> else ?s1\<lparr>answerInput := Blank\<rparr>"
  have "nbackInput ?s2 = Some v" using v by (simp add: stopAllAudio_def)
  from resetSessionVariables_frame(3) [OF this]
  show ?thesis
    by (simp add: startSession_def Let_def startTimers_frame sequence_frame)
qed





section \<open>Ending a session\<close>

text \<open>
  C6. The claim is that ending a session cancels the presentation timer and the pending
  deadline timer, so that no trial is resolved and no counter or ISI changes afterwards.
  \<^verbatim>\<open>endSession\<close> clears the clock and \<^verbatim>\<open>currentIntervalId\<close>; the handle of the deadline
  timer is never kept, and the callback does not test \<^verbatim>\<open>sessionActive\<close> as
  \<^verbatim>\<open>presentNextNumber\<close> does. In the session without answers, ended after the sixth
  digit: the session is inactive, the presentation timer (handle 12) is gone, the deadline
  of trial 4 (handle 11) is still pending; when it fires, \<^verbatim>\<open>totalAttempts\<close> goes from 3 to
  4, the incorrect streak reaches 4 and is reset, and the ISI goes from 3000 to 3100.
\<close>

theorem deadline_after_end:
  "\<not> sessionActive (run (no_answer_events @ [EndTraining 17000]) fresh_session) \<and>
   map_of (pending (run (no_answer_events @ [EndTraining 17000]) fresh_session)) 11 =
     Some (AnswerTimeout 4 13000) \<and>
   map_of (pending (run (no_answer_events @ [EndTraining 17000]) fresh_session)) 12 = None \<and>
   totalAttempts (run (no_answer_events @ [EndTraining 17000]) fresh_session) = 3 \<and>
   consecutiveIncorrect (run (no_answer_events @ [EndTraining 17000]) fresh_session) = 3 \<and>
   currentISIValue (run (no_answer_events @ [EndTraining 17000]) fresh_session) = 3000 \<and>
   totalAttempts (step (Fire 11 19000 0 19000)
      (run (no_answer_events @ [EndTraining 17000]) fresh_session)) = 4 \<and>
   consecutiveIncorrect (step (Fire 11 19000 0 19000)
      (run (no_answer_events @ [EndTraining 17000]) fresh_session)) = 0 \<and>
   currentISIValue (step (Fire 11 19000 0 19000)
      (run (no_answer_events @ [EndTraining 17000]) fresh_session)) = 3100"
  by code_simp

text \<open>
  The same with the sounds loaded: the session is ended while the first trial is open, and
  the deadline of that trial, fired afterwards, scores it.
\<close>

lemma deadline_after_end_with_audio:
  "\<not> sessionActive (run ended_with_audio_events audio_session) \<and>
   pending (run ended_with_audio_events audio_session) = [(7, AnswerTimeout 1 5000)] \<and>
   totalAttempts (run ended_with_audio_events audio_session) = 0 \<and>
   totalAttempts (step (Fire 7 8000 0 8000) (run ended_with_audio_events audio_session)) = 1 \<and>
   map t_correct (sessionHistory
      (step (Fire 7 8000 0 8000) (run ended_with_audio_events audio_session))) = [Some False]"
  by code_simp

section \<open>Persistence\<close>

text \<open>
  C9. The claim is that saving and reloading a settings record whose values are in their
  valid ranges gives the same values. The beep volume ranges over [0, 1], and
  \<^verbatim>\<open>loadBeepSettings\<close> reads it as \<^verbatim>\<open>settings.volume || 0.5\<close>: the volume 0 is saved as
  0 and reloaded as 0.5.
\<close>

theorem beep_volume_zero_reloads_as_half:
  "beepSettings (saveBeepSettings
      ((initial Map.empty)\<lparr>beepSettings := \<lparr>enabled = True, volume = 0\<rparr>\<rparr>)) =
     \<lparr>enabled = True, volume = 0\<rparr> \<and>
   storage (saveBeepSettings
      ((initial Map.empty)\<lparr>beepSettings := \<lparr>enabled = True, volume = 0\<rparr>\<rparr>)) ''pasatBeepSettings'' =
     Some (StoredBeep \<lparr>enabled = True, volume = 0\<rparr>) \<and>
   beepSettings (loadBeepSettings (saveBeepSettings
      ((initial Map.empty)\<lparr>beepSettings := \<lparr>enabled = True, volume = 0\<rparr>\<rparr>))) =
     \<lparr>enabled = True, volume = 1 / 2\<rparr>"
  by (simp add: saveBeepSettings_def loadBeepSettings_def setItem_def getItem_def initial_def
      js_or_real_def)

text \<open>
  Away from that value the round trip holds: for a positive volume, a playback rate in
  [1, 1.5], an N-back depth in [1, 10] and custom-mode settings with an ISI of at least
  500 and a duration of at least one minute, while the store is available.
\<close>

lemma beep_round_trip:
  "storageAvailable s \<Longrightarrow> 0 < volume (beepSettings s) \<Longrightarrow> volume (beepSettings s) \<le> 1 \<Longrightarrow>
   beepSettings (loadBeepSettings (saveBeepSettings s)) = beepSettings s"
  by (simp add: saveBeepSettings_def loadBeepSettings_def setItem_def getItem_def js_or_real_def Let_def)

lemma audio_speed_round_trip:
  "storageAvailable s \<Longrightarrow> 1 \<le> audioSpeedSettings s \<Longrightarrow> audioSpeedSettings s \<le> 3 / 2 \<Longrightarrow>
   audioSpeedSettings (loadAudioSpeedSettings (saveAudioSpeedSettings s)) = audioSpeedSettings s"
  by (simp add: saveAudioSpeedSettings_def loadAudioSpeedSettings_def setItem_def getItem_def
      js_or_real_def Let_def)

lemma nback_round_trip:
  "storageAvailable s \<Longrightarrow> 1 \<le> nbackSettings s \<Longrightarrow> nbackSettings s \<le> 10 \<Longrightarrow>
   nbackSettings (loadNbackSettings (saveNbackSettings s)) = nbackSettings s"
  by (simp add: saveNbackSettings_def loadNbackSettings_def setItem_def getItem_def js_or_int_def Let_def)

lemma custom_mode_round_trip:
  "storageAvailable s \<Longrightarrow> 500 \<le> ms_selectedISI (customModeSettings s) \<Longrightarrow>
   1 \<le> ms_sessionDuration (customModeSettings s) \<Longrightarrow>
   customModeSettings (loadCustomModeSettings (saveCustomModeSettings s)) = customModeSettings s"
  by (simp add: saveCustomModeSettings_def loadCustomModeSettings_def setItem_def getItem_def
      js_or_int_def updateCustomModeUI_def Let_def)

lemma persistence_frame [simp]:
  "allSessions (clearTimeout i s) = allSessions s"
  "storage (clearTimeout i s) = storage s"
  "totalAttempts (clearTimeout i s) = totalAttempts s"
  "allSessions (stopAllAudio s) = allSessions s"
  "storage (stopAllAudio s) = storage s"
  "totalAttempts (stopAllAudio s) = totalAttempts s"
  "allSessions (clearCurrentInterval s) = allSessions s"
  "storage (clearCurrentInterval s) = storage s"
  "totalAttempts (clearCurrentInterval s) = totalAttempts s"
  "allSessions (clearTrainingTimer s) = allSessions s"
  "storage (clearTrainingTimer s) = storage s"
  "totalAttempts (clearTrainingTimer s) = totalAttempts s"
  by (simp_all add: clearTimeout_def stopAllAudio_def clearCurrentInterval_def
        clearTrainingTimer_def split: option.split)

lemma addSessionToHistory_short:
  "totalAttempts s < 50 \<Longrightarrow> addSessionToHistory now s = s"
  by (simp add: addSessionToHistory_def)

lemma endSession_short:
  "totalAttempts s < 50 \<Longrightarrow>
   allSessions (endSession now s) = allSessions s \<and> storage (endSession now s) = storage s"
  by (simp add: endSession_def Let_def addSessionToHistory_short)

text \<open>
  C10. A session that ends with fewer than 50 total attempts, by the End button or by the
  clock running out, appends no summary: the session collection in memory and
  \<^verbatim>\<open>localStorage\<close> are as before.
\<close>

theorem short_session_not_persisted:
  "totalAttempts s < 50 \<Longrightarrow>
   allSessions (endSession now s) = allSessions s \<and> storage (endSession now s) = storage s \<and>
   allSessions (updateTimer now s) = allSessions s \<and> storage (updateTimer now s) = storage s"
  using endSession_short [of "s\<lparr>remainingTime := remainingTime s - 1\<rparr>" now]
  by (simp add: updateTimer_def Let_def endSession_short)

text \<open>A session of 30 unanswered trials is ended: nothing is stored.\<close>

theorem short_session_not_persisted_witness:
  "totalAttempts (run (unanswered_session 30) fresh_session) = 30 \<and>
   sessionActive (run (unanswered_session 30) fresh_session) \<and>
   allSessions (run (unanswered_session 30) fresh_session) = [] \<and>
   storage (run (unanswered_session 30) fresh_session) ''pasatSessions'' = None \<and>
   allSessions (endSession 200000 (run (unanswered_session 30) fresh_session)) = [] \<and>
   storage (endSession 200000 (run (unanswered_session 30) fresh_session)) ''pasatSessions'' = None"
proof -
  let ?S = "run (unanswered_session 30) fresh_session"
  have a: "totalAttempts ?S = 30" by code_simp
  have b: "sessionActive ?S" by code_simp
  have c: "allSessions ?S = []" by code_simp
  have d: "storage ?S ''pasatSessions'' = None" by code_simp
  have e: "totalAttempts ?S < 50" using a by simp
  from short_session_not_persisted [OF e, of 200000] a b c d show ?thesis by simp
qed

text \<open>With 50 attempts the same session is stored, as one summary.\<close>

lemma long_session_persisted:
  "map sd_totalAttempts
     (allSessions (endSession 400000 (run (unanswered_session 50) fresh_session))) = [50] \<and>
   storage (endSession 400000 (run (unanswered_session 50) fresh_session)) ''pasatSessions'' =
     Some (StoredSessions
       (allSessions (endSession 400000 (run (unanswered_session 50) fresh_session))))"
  by code_simp

text \<open>
  The accuracy of a summary is rounded from doubles: 46 correct of 80 gives 57 (the
  quotient is just below 0.575 and its product with 100 just below 57.5), one of 8
  gives 13, and 0.1 is the double \<open>7205759403792794 * 2 ^ -56\<close>.
\<close>

lemma accuracy_in_doubles:
  "Math_round (js_times (js_div 46 80) 100) = 57 \<and>
   Math_round (js_times (js_div 1 8) 100) = 13 \<and>
   Math_round (js_times (js_div 57 100) 100) = 57 \<and>
   js_div 1 10 = (7205759403792794, - 56)"
  by code_simp

end
